theory Spec2Isabelle
  imports Main
begin

section \<open>User handling of the backend (backend/users.py)\<close>

text \<open>
  The module wraps the user manager of the fastapi-users library. Coroutines are modelled
  as state transformers on an explicit world: every \<open>await\<close> runs the awaited call to its
  end, and \<open>asyncio.create_task\<close> only appends to the list of pending tasks. A raised
  exception is a value; the world reached when it was raised is returned with it, since
  nothing in the module rolls an effect back.
\<close>

subsection \<open>Exceptions\<close>

datatype exc =
    HTTPException nat string
  | UserAlreadyExists
  | UserInactive
  | UserAlreadyVerified
  | ValueError
  | AttributeError
  | Raised string

text \<open>
  \<open>HTTPException status_code detail\<close> is fastapi's class, the one the \<open>except\<close> clause of
  \<open>on_after_register_custom\<close> names. \<open>Raised cls\<close> stands for an exception of any other
  class a collaborator may raise (a timeout, a database error), given by its class name.
\<close>

fun is_HTTPException :: "exc \<Rightarrow> bool" where
  "is_HTTPException (HTTPException _ _) = True"
| "is_HTTPException _ = False"

subsection \<open>Python truth values of optional strings\<close>

definition truthy :: "string option \<Rightarrow> bool" where
  \<comment> \<open>\<open>None\<close> and the empty string are false, every other string is true.\<close>
  "truthy s = (case s of None \<Rightarrow> False | Some t \<Rightarrow> t \<noteq> [])"

definition py_or :: "string option \<Rightarrow> string \<Rightarrow> string" where
  \<comment> \<open>\<open>a or b\<close> for an optional string \<open>a\<close> and a string \<open>b\<close>.\<close>
  "py_or a b = (case a of None \<Rightarrow> b | Some t \<Rightarrow> if t = [] then b else t)"

subsection \<open>Models\<close>

text \<open>
  \<open>UserCreate\<close> (lines 39 to 52) and \<open>UserDB\<close> (lines 29 to 34 and 66 to 71, with the
  fields of the library's \<open>BaseUserDB\<close>). The identifier is the text of the UUID. The
  \<open>invites\<close> dictionary of \<open>UserDB\<close> is neither read nor written in this module and is not
  part of the record.
\<close>

record UserCreate =
  uc_email :: string
  uc_password :: string
  uc_name :: "string option"
  inviteToken :: "string option"
  newArchive :: bool
  newArchiveName :: "string option"

record UserDB =
  u_id :: string
  u_email :: string
  u_hashed_password :: string
  u_name :: "string option"
  is_active :: bool
  is_superuser :: bool
  is_verified :: bool

subsection \<open>The world\<close>

datatype ('r, 'a) call =
    Get_valid_invite string UserCreate
  | Create_new_archive_for_user string string UserDB
  | Handle_new_user_invite string UserDB
  | Send_user_validation string string
  | Send_user_forgot_password string string
  | Invite_user 'r UserDB "'a option" bool

datatype out = Line string | Exc_line exc

datatype task = Request_verify UserDB

text \<open>
  \<open>users\<close> is the user collection, \<open>ext\<close> the state of the collaborators (invite ledger,
  archive operations, email sender), \<open>calls\<close> the collaborator calls made so far with their
  arguments, \<open>stdout\<close> what \<open>print\<close> wrote, \<open>tasks\<close> the tasks created and not yet run.
\<close>

record ('e, 'r, 'a) world =
  users :: "UserDB list"
  ext :: 'e
  calls :: "('r, 'a) call list"
  stdout :: "out list"
  tasks :: "task list"

subsection \<open>Collaborators and library functions\<close>

text \<open>
  The archive operations, the invite ledger and the email sender are objects handed to the
  manager; their classes live outside backend/users.py. Each method is a parameter: it
  reads the collaborators' state and returns the exception it raised, if any, with the
  state it left. A method that raises may have changed the state before.
\<close>

record 'e ArchiveOps =
  create_new_archive_for_user :: "string \<Rightarrow> string \<Rightarrow> UserDB \<Rightarrow> 'e \<Rightarrow> exc option \<times> 'e"
  handle_new_user_invite :: "string \<Rightarrow> UserDB \<Rightarrow> 'e \<Rightarrow> exc option \<times> 'e"

text \<open>
  \<open>create\<close> only tests the result of \<open>get_valid_invite\<close> for truth, so the parameter
  returns that truth value, or the exception raised. \<open>invite_user\<close> of the ledger also
  receives the user manager, here the user collection it gives access to.
\<close>

record ('e, 'r, 'a) InviteOps =
  get_valid_invite :: "string \<Rightarrow> UserCreate \<Rightarrow> 'e \<Rightarrow> (exc + bool) \<times> 'e"
  invites_invite_user ::
    "'r \<Rightarrow> UserDB \<Rightarrow> UserDB list \<Rightarrow> 'a option \<Rightarrow> bool \<Rightarrow> 'e \<Rightarrow> exc option \<times> 'e"

record 'e EmailSender =
  send_user_validation :: "string \<Rightarrow> string \<Rightarrow> 'e \<Rightarrow> exc option \<times> 'e"
  send_user_forgot_password :: "string \<Rightarrow> string \<Rightarrow> 'e \<Rightarrow> exc option \<times> 'e"

text \<open>
  Functions of the fastapi-users library and of the standard library that the manager
  calls: the password hash, the signing of a token (from the token data, the secret and
  the lifetime in seconds), and the UUID drawn for a new record.
\<close>

record library =
  get_password_hash :: "string \<Rightarrow> string"
  generate_jwt :: "(string \<times> string) list \<Rightarrow> string \<Rightarrow> int \<Rightarrow> string"
  uuid4 :: string

subsection \<open>The user manager\<close>

record ('e, 'r, 'a) UserManager =
  reset_password_token_secret :: string
  verification_token_secret :: string
  email :: "'e EmailSender"
  invites :: "('e, 'r, 'a) InviteOps"
  archive_ops :: "'e ArchiveOps option"
  registration_enabled :: bool

definition set_archive_ops ::
  "('e, 'r, 'a) UserManager \<Rightarrow> 'e ArchiveOps \<Rightarrow> ('e, 'r, 'a) UserManager" where
  "set_archive_ops self ops = self\<lparr>archive_ops := Some ops\<rparr>"

subsection \<open>The library's user manager\<close>

text \<open>
  \<open>BaseUserManager.create\<close>, \<open>_update\<close> and \<open>request_verify\<close> of fastapi-users, which
  \<open>UserManager\<close> inherits and calls. The collection looks an email up without regard to
  the case of ASCII letters. \<open>validate_password\<close> and \<open>on_after_register\<close> are the
  library's defaults, which do nothing. The collection itself does not fail.
\<close>

definition lower_char :: "char \<Rightarrow> char" where
  "lower_char c =
     (case map_of (zip ''ABCDEFGHIJKLMNOPQRSTUVWXYZ'' ''abcdefghijklmnopqrstuvwxyz'') c of
        None \<Rightarrow> c
      | Some l \<Rightarrow> l)"

definition get_by_email :: "UserDB list \<Rightarrow> string \<Rightarrow> UserDB option" where
  "get_by_email us e = find (\<lambda>u. map lower_char (u_email u) = map lower_char e) us"

definition base_create ::
  "library \<Rightarrow> UserCreate \<Rightarrow> ('e, 'r, 'a) world \<Rightarrow> (exc + UserDB) \<times> ('e, 'r, 'a) world" where
  "base_create lib user w =
     (case get_by_email (users w) (uc_email user) of
        Some _ \<Rightarrow> (Inl UserAlreadyExists, w)
      | None \<Rightarrow>
          (let db_user = \<lparr>u_id = uuid4 lib, u_email = uc_email user,
                 u_hashed_password = get_password_hash lib (uc_password user),
                 u_name = uc_name user, is_active = True, is_superuser = False,
                 is_verified = False\<rparr>
           in (Inr db_user, w\<lparr>users := users w @ [db_user]\<rparr>)))"

fun replace_one :: "string \<Rightarrow> UserDB \<Rightarrow> UserDB list \<Rightarrow> UserDB list" where
  "replace_one i u [] = []"
| "replace_one i u (x # xs) = (if u_id x = i then u # xs else x # replace_one i u xs)"

definition update_verified ::
  "UserDB \<Rightarrow> ('e, 'r, 'a) world \<Rightarrow> UserDB \<times> ('e, 'r, 'a) world" where
  \<comment> \<open>\<open>_update(user, {"is_verified": True})\<close>: sets the attribute on the object, then
      replaces the first stored record that has the object's identifier.\<close>
  "update_verified user w =
     (let user' = user\<lparr>is_verified := True\<rparr>
      in (user', w\<lparr>users := replace_one (u_id user') user' (users w)\<rparr>))"

subsection \<open>Registration\<close>

text \<open>
  \<open>on_after_register_custom\<close> (lines 127 to 159). The result is the exception that left
  the coroutine, or the user object as the coroutine left it: \<open>_update\<close> sets
  \<open>is_verified\<close> on the object that \<open>create\<close> later returns. The \<open>request\<close> argument is
  only passed on and is left out. \<open>the\<close> reads a token only where \<open>truthy\<close> has found
  one. A call is recorded in \<open>calls\<close> whether it returns or raises.
\<close>

definition archive_name :: "UserDB \<Rightarrow> UserCreate \<Rightarrow> string" where
  \<comment> \<open>Lines 137 to 139.\<close>
  "archive_name user user_create =
     py_or (newArchiveName user_create) (py_or (u_name user) (u_email user) @ '''s Archive'')"

definition on_after_register_custom ::
  "('e, 'r, 'a) UserManager \<Rightarrow> UserDB \<Rightarrow> UserCreate \<Rightarrow> ('e, 'r, 'a) world
     \<Rightarrow> (exc + UserDB) \<times> ('e, 'r, 'a) world" where
  "on_after_register_custom self user user_create w =
     (let w1 = w\<lparr>stdout := stdout w @ [Line (''User '' @ u_id user @ '' has registered.'')]\<rparr>;
          (raised, w2) =
            (if newArchive user_create then
               (let w1' = w1\<lparr>stdout := stdout w1 @
                            [Line (''Creating new archive for '' @ u_id user)]\<rparr>
                in case archive_ops self of
                     None \<Rightarrow> (Some AttributeError, w1')
                   | Some ops \<Rightarrow>
                       (let (r, e) = create_new_archive_for_user ops
                                       (archive_name user user_create) ''default'' user (ext w1')
                        in (r, w1'\<lparr>ext := e, calls := calls w1' @
                              [Create_new_archive_for_user (archive_name user user_create)
                                 ''default'' user]\<rparr>)))
             else (None, w1))
      in case raised of
           Some x \<Rightarrow> (Inl x, w2)
         | None \<Rightarrow>
             (if truthy (inviteToken user_create) then
                (let token = the (inviteToken user_create);
                     (raised', w3) =
                       (case archive_ops self of
                          None \<Rightarrow> (Some AttributeError, w2)
                        | Some ops \<Rightarrow>
                            (let (r, e) = handle_new_user_invite ops token user (ext w2);
                                 w2' = w2\<lparr>ext := e, calls := calls w2 @
                                         [Handle_new_user_invite token user]\<rparr>
                             in case r of
                                  None \<Rightarrow> (None, w2')
                                | Some x \<Rightarrow>
                                    if is_HTTPException x
                                    then (None, w2'\<lparr>stdout := stdout w2' @ [Exc_line x]\<rparr>)
                                    else (Some x, w2')))
                 in case raised' of
                      Some x \<Rightarrow> (Inl x, w3)
                    | None \<Rightarrow> (let (user', w4) = update_verified user w3 in (Inr user', w4)))
              else (Inr user, w2\<lparr>tasks := tasks w2 @ [Request_verify user]\<rparr>)))"

text \<open>
  \<open>create\<close> (lines 100 to 117); \<open>check_invite\<close> is its two guards (lines 106 to 113).
  The \<open>safe\<close> flag only selects which fields of the request the library copies;
  \<open>UserCreate\<close> has none of the fields it would drop.
\<close>

definition check_invite ::
  "('e, 'r, 'a) UserManager \<Rightarrow> UserCreate \<Rightarrow> ('e, 'r, 'a) world
     \<Rightarrow> exc option \<times> ('e, 'r, 'a) world" where
  "check_invite self user w =
     (if \<not> registration_enabled self \<and> \<not> truthy (inviteToken user)
      then (Some (HTTPException 400 ''Invite Token Required''), w)
      else if truthy (inviteToken user) then
        (let token = the (inviteToken user);
             (found, e) = get_valid_invite (invites self) token user (ext w);
             w' = w\<lparr>ext := e, calls := calls w @ [Get_valid_invite token user]\<rparr>
         in case found of
              Inl x \<Rightarrow> (Some x, w')
            | Inr y \<Rightarrow>
                if \<not> y then (Some (HTTPException 400 ''Invalid Invite Token''), w')
                else (None, w'))
      else (None, w))"

definition default_name :: "UserCreate \<Rightarrow> UserCreate" where
  \<comment> \<open>Line 104: \<open>user.name = user.name or user.email\<close>.\<close>
  "default_name user = user\<lparr>uc_name := Some (py_or (uc_name user) (uc_email user))\<rparr>"

definition create ::
  "library \<Rightarrow> ('e, 'r, 'a) UserManager \<Rightarrow> UserCreate \<Rightarrow> ('e, 'r, 'a) world
     \<Rightarrow> (exc + UserDB) \<times> ('e, 'r, 'a) world" where
  "create lib self user0 w =
     (let user = default_name user0
      in case check_invite self user w of
           (Some x, w1) \<Rightarrow> (Inl x, w1)
         | (None, w1) \<Rightarrow>
             (case base_create lib user w1 of
                (Inl x, w2) \<Rightarrow> (Inl x, w2)
              | (Inr created_user, w2) \<Rightarrow>
                  on_after_register_custom self created_user user w2))"

subsection \<open>Email verification and password reset\<close>

text \<open>
  \<open>on_after_request_verify\<close> (lines 169 to 174) and \<open>on_after_forgot_password\<close> (lines 161
  to 166), called by the library's \<open>request_verify\<close> and \<open>forgot_password\<close>, which sign
  the token with the manager's secret for that purpose (lifetime 3600 seconds, the
  library's default).
\<close>

definition on_after_request_verify ::
  "('e, 'r, 'a) UserManager \<Rightarrow> UserDB \<Rightarrow> string \<Rightarrow> ('e, 'r, 'a) world
     \<Rightarrow> exc option \<times> ('e, 'r, 'a) world" where
  "on_after_request_verify self user token w =
     (let (r, e) = send_user_validation (email self) (u_email user) token (ext w)
      in (r, w\<lparr>ext := e, calls := calls w @ [Send_user_validation (u_email user) token]\<rparr>))"

definition request_verify ::
  "library \<Rightarrow> ('e, 'r, 'a) UserManager \<Rightarrow> UserDB \<Rightarrow> ('e, 'r, 'a) world
     \<Rightarrow> exc option \<times> ('e, 'r, 'a) world" where
  "request_verify lib self user w =
     (if \<not> is_active user then (Some UserInactive, w)
      else if is_verified user then (Some UserAlreadyVerified, w)
      else
        (let token = generate_jwt lib
               [(''user_id'', u_id user), (''email'', u_email user),
                (''aud'', ''fastapi-users:verify'')]
               (verification_token_secret self) 3600
         in on_after_request_verify self user token w))"

definition on_after_forgot_password ::
  "('e, 'r, 'a) UserManager \<Rightarrow> UserDB \<Rightarrow> string \<Rightarrow> ('e, 'r, 'a) world
     \<Rightarrow> exc option \<times> ('e, 'r, 'a) world" where
  "on_after_forgot_password self user token w =
     (let w1 = w\<lparr>stdout := stdout w @
                 [Line (''User '' @ u_id user @ '' has forgot their password. Reset token: ''
                        @ token)]\<rparr>;
          (r, e) = send_user_forgot_password (email self) (u_email user) token (ext w1)
      in (r, w1\<lparr>ext := e,
                calls := calls w1 @ [Send_user_forgot_password (u_email user) token]\<rparr>))"

definition forgot_password ::
  "library \<Rightarrow> ('e, 'r, 'a) UserManager \<Rightarrow> UserDB \<Rightarrow> ('e, 'r, 'a) world
     \<Rightarrow> exc option \<times> ('e, 'r, 'a) world" where
  "forgot_password lib self user w =
     (if \<not> is_active user then (Some UserInactive, w)
      else
        (let token = generate_jwt lib
               [(''user_id'', u_id user), (''aud'', ''fastapi-users:reset'')]
               (reset_password_token_secret self) 3600
         in on_after_forgot_password self user token w))"

text \<open>
  The event loop runs a pending task some time after the coroutine that created it has
  gone on. Nothing awaits the task of \<open>on_after_register_custom\<close>, so an exception it
  raises stays in the task.
\<close>

definition run_next_task ::
  "library \<Rightarrow> ('e, 'r, 'a) UserManager \<Rightarrow> ('e, 'r, 'a) world \<Rightarrow> ('e, 'r, 'a) world" where
  "run_next_task lib self w =
     (case tasks w of
        [] \<Rightarrow> w
      | Request_verify user # ts \<Rightarrow> snd (request_verify lib self user (w\<lparr>tasks := ts\<rparr>)))"

subsection \<open>Module constants\<close>

text \<open>
  \<open>int\<close> of a string, for ASCII strings: white space (blank, tab, line feed, vertical tab,
  form feed, carriage return) is stripped, a sign may come first, then decimal digits, where
  single underscores may stand between digits. A numeral of more than 4300 digits is
  refused (\<open>sys.int_info.default_max_str_digits\<close>, the interpreter's default). Every
  refusal is a \<open>ValueError\<close>, here \<open>None\<close>.
\<close>

definition is_space :: "char \<Rightarrow> bool" where
  "is_space c = (c \<in> set [CHR '' '', CHR 0x09, CHR 0x0A, CHR 0x0B, CHR 0x0C, CHR 0x0D])"

definition strip :: "string \<Rightarrow> string" where
  "strip s = rev (dropWhile is_space (rev (dropWhile is_space s)))"

definition digit_val :: "char \<Rightarrow> nat option" where
  "digit_val c =
     (let n = (of_char c :: nat) in if 48 \<le> n \<and> n \<le> 57 then Some (n - 48) else None)"

fun parse_digits :: "nat \<Rightarrow> string \<Rightarrow> nat option" where
  "parse_digits acc [] = Some acc"
| "parse_digits acc [c] =
     (case digit_val c of None \<Rightarrow> None | Some v \<Rightarrow> Some (acc * 10 + v))"
| "parse_digits acc (c # d # ds) =
     (if c = CHR ''_'' then
        (case digit_val d of None \<Rightarrow> None | Some v \<Rightarrow> parse_digits (acc * 10 + v) ds)
      else
        (case digit_val c of None \<Rightarrow> None | Some v \<Rightarrow> parse_digits (acc * 10 + v) (d # ds)))"

definition parse_nat :: "string \<Rightarrow> nat option" where
  "parse_nat s =
     (case s of
        [] \<Rightarrow> None
      | c # cs \<Rightarrow> (case digit_val c of None \<Rightarrow> None | Some v \<Rightarrow> parse_digits v cs))"

definition max_str_digits :: nat where
  "max_str_digits = 4300"

definition int_digits :: "string \<Rightarrow> nat option" where
  \<comment> \<open>The digits after the sign: underscores do not count towards the limit, leading
      zeros do.\<close>
  "int_digits s =
     (if max_str_digits < length (filter (\<lambda>c. c \<noteq> CHR ''_'') s) then None else parse_nat s)"

definition py_int :: "string \<Rightarrow> int option" where
  "py_int s =
     (case strip s of
        [] \<Rightarrow> None
      | c # cs \<Rightarrow>
          if c = CHR ''-'' then map_option (\<lambda>n. - int n) (int_digits cs)
          else if c = CHR ''+'' then map_option int (int_digits cs)
          else map_option int (int_digits (c # cs)))"




text \<open>
  Lines 23 and 25. \<open>environ\<close> is the process environment at import, \<open>uuid_hex\<close> the value
  of \<open>uuid.uuid4().hex\<close> drawn at import. A lifetime that is not a numeral raises
  \<open>ValueError\<close> at import.
\<close>

type_synonym environ = "string \<Rightarrow> string option"

definition PASSWORD_SECRET :: "environ \<Rightarrow> string \<Rightarrow> string" where
  "PASSWORD_SECRET environ uuid_hex =
     (case environ ''PASSWORD_SECRET'' of None \<Rightarrow> uuid_hex | Some s \<Rightarrow> s)"

definition JWT_TOKEN_LIFETIME :: "environ \<Rightarrow> exc + int" where
  "JWT_TOKEN_LIFETIME environ =
     (case environ ''JWT_TOKEN_LIFETIME_MINUTES'' of
        None \<Rightarrow> Inr (60 * 60)
      | Some s \<Rightarrow> (case py_int s of None \<Rightarrow> Inl ValueError | Some m \<Rightarrow> Inr (m * 60)))"

text \<open>
  The class attributes of \<open>UserManager\<close> (lines 84 to 86), its \<open>__init__\<close> (lines 88 to 94)
  and \<open>init_user_manager\<close> (lines 178 to 187).
\<close>

definition init_user_manager ::
  "environ \<Rightarrow> string \<Rightarrow> 'e EmailSender \<Rightarrow> ('e, 'r, 'a) InviteOps \<Rightarrow> ('e, 'r, 'a) UserManager" where
  "init_user_manager environ uuid_hex emailsender invs =
     \<lparr>reset_password_token_secret = PASSWORD_SECRET environ uuid_hex,
      verification_token_secret = PASSWORD_SECRET environ uuid_hex,
      email = emailsender, invites = invs, archive_ops = None,
      registration_enabled = (environ ''REGISTRATION_ENABLED'' = Some ''1'')\<rparr>"

subsection \<open>The routes of init_users_api\<close>

record JWTAuthentication =
  secret :: string
  lifetime_seconds :: int
  tokenUrl :: string

definition jwt_authentication :: "environ \<Rightarrow> string \<Rightarrow> exc + JWTAuthentication" where
  \<comment> \<open>Lines 193 to 197.\<close>
  "jwt_authentication environ uuid_hex =
     (case JWT_TOKEN_LIFETIME environ of
        Inl x \<Rightarrow> Inl x
      | Inr l \<Rightarrow> Inr \<lparr>secret = PASSWORD_SECRET environ uuid_hex, lifetime_seconds = l,
                      tokenUrl = ''auth/jwt/login''\<rparr>)"

text \<open>
  \<open>current_user(active=True)\<close> of the library (line 210): \<open>auth\<close> is the account the
  request's bearer token resolves to. The dependency asks for an active account and for
  nothing else.
\<close>

definition current_active_user :: "UserDB option \<Rightarrow> exc + UserDB" where
  "current_active_user auth =
     (case auth of
        None \<Rightarrow> Inl (HTTPException 401 ''Unauthorized'')
      | Some user \<Rightarrow> if is_active user then Inr user else Inl (HTTPException 401 ''Unauthorized''))"

definition get_login_response ::
  "library \<Rightarrow> JWTAuthentication \<Rightarrow> UserDB \<Rightarrow> (string \<times> string) list" where
  "get_login_response lib jwt user =
     [(''access_token'',
       generate_jwt lib [(''user_id'', u_id user), (''aud'', ''fastapi-users:auth'')]
         (secret jwt) (lifetime_seconds jwt)),
      (''token_type'', ''bearer'')]"

definition refresh_jwt ::
  "library \<Rightarrow> JWTAuthentication \<Rightarrow> UserDB option \<Rightarrow> exc + (string \<times> string) list" where
  \<comment> \<open>Lines 212 to 214.\<close>
  "refresh_jwt lib jwt auth =
     (case current_active_user auth of
        Inl x \<Rightarrow> Inl x
      | Inr user \<Rightarrow> Inr (get_login_response lib jwt user))"

definition invite_user ::
  "('e, 'r, 'a) UserManager \<Rightarrow> 'r \<Rightarrow> UserDB option \<Rightarrow> ('e, 'r, 'a) world
     \<Rightarrow> (exc + (string \<times> string) list) \<times> ('e, 'r, 'a) world" where
  \<comment> \<open>Lines 240 to 252. The check of \<open>is_superuser\<close> is commented out in the source.\<close>
  "invite_user user_manager invite auth w =
     (case current_active_user auth of
        Inl x \<Rightarrow> (Inl x, w)
      | Inr user \<Rightarrow>
          (let (r, e) = invites_invite_user (invites user_manager) invite user (users w)
                          None False (ext w);
               w' = w\<lparr>ext := e, calls := calls w @ [Invite_user invite user None False]\<rparr>
           in case r of
                Some x \<Rightarrow> (Inl x, w')
              | None \<Rightarrow> (Inr [(''invited'', ''new_user'')], w')))"

subsection \<open>A concrete deployment\<close>

text \<open>
  Collaborators over a list of redeemable invite tokens: the ledger finds a token that is
  in the list, the archive operations redeem it or raise the "Invalid Invite" error, and
  a second set of archive operations times out on every call.
\<close>

definition lib0 :: library where
  "lib0 = \<lparr>get_password_hash = (\<lambda>p. ''hash:'' @ p),
           generate_jwt = (\<lambda>d s l. ''jwt:'' @ s),
           uuid4 = ''u1''\<rparr>"

definition invites0 :: "(string list, string, string) InviteOps" where
  "invites0 = \<lparr>get_valid_invite = (\<lambda>t u e. (Inr (t \<in> set e), e)),
               invites_invite_user = (\<lambda>i u us a x e. (None, e))\<rparr>"

definition email0 :: "string list EmailSender" where
  "email0 = \<lparr>send_user_validation = (\<lambda>a t e. (None, e)),
             send_user_forgot_password = (\<lambda>a t e. (None, e))\<rparr>"

definition email_down :: "string list EmailSender" where
  "email_down = \<lparr>send_user_validation = (\<lambda>a t e. (Some (Raised ''SMTPException''), e)),
                 send_user_forgot_password = (\<lambda>a t e. (Some (Raised ''SMTPException''), e))\<rparr>"

definition ops0 :: "string list ArchiveOps" where
  "ops0 = \<lparr>create_new_archive_for_user = (\<lambda>n s u e. (None, e)),
           handle_new_user_invite =
             (\<lambda>t u e. if t \<in> set e then (None, remove1 t e)
                      else (Some (HTTPException 400 ''Invalid Invite''), e))\<rparr>"

definition ops_timeout :: "string list ArchiveOps" where
  "ops_timeout = \<lparr>create_new_archive_for_user = (\<lambda>n s u e. (Some (Raised ''TimeoutError''), e)),
                  handle_new_user_invite = (\<lambda>t u e. (Some (Raised ''TimeoutError''), e))\<rparr>"

definition ops_reject :: "string list ArchiveOps" where
  \<comment> \<open>The invite was redeemed by someone else after the check.\<close>
  "ops_reject = \<lparr>create_new_archive_for_user = (\<lambda>n s u e. (None, e)),
                 handle_new_user_invite =
                   (\<lambda>t u e. (Some (HTTPException 400 ''Invalid Invite''), e))\<rparr>"

definition manager0 :: "bool \<Rightarrow> string list ArchiveOps \<Rightarrow> (string list, string, string) UserManager" where
  "manager0 enabled ops =
     set_archive_ops
       (init_user_manager (\<lambda>k. if k = ''REGISTRATION_ENABLED'' \<and> enabled then Some ''1'' else None)
          ''5f0c'' email0 invites0) ops"

definition world0 :: "(string list, string, string) world" where
  "world0 = \<lparr>users = [], ext = [''tok''], calls = [], stdout = [], tasks = []\<rparr>"

definition world1 :: "(string list, string, string) world" where
  \<comment> \<open>The address of the request is taken, written with a capital letter.\<close>
  "world1 = \<lparr>users = [\<lparr>u_id = ''u0'', u_email = ''A@example.com'', u_hashed_password = ''hash:y'',
                         u_name = Some ''A'', is_active = True, is_superuser = False,
                         is_verified = True\<rparr>],
             ext = [''tok''], calls = [], stdout = [], tasks = []\<rparr>"

definition request0 :: "string option \<Rightarrow> string option \<Rightarrow> bool \<Rightarrow> UserCreate" where
  "request0 nm tok arch =
     \<lparr>uc_email = ''a@example.com'', uc_password = ''x'', uc_name = nm, inviteToken = tok,
      newArchive = arch, newArchiveName = Some []\<rparr>"

definition account0 :: "bool \<Rightarrow> UserDB" where
  "account0 v =
     \<lparr>u_id = ''u1'', u_email = ''a@example.com'', u_hashed_password = ''hash:x'',
      u_name = Some ''a@example.com'', is_active = True, is_superuser = False,
      is_verified = v\<rparr>"

section \<open>The phases of a registration\<close>

lemmas deployment_defs =
  lib0_def manager0_def ops_timeout_def ops_reject_def ops0_def world0_def world1_def request0_def
  init_user_manager_def set_archive_ops_def invites0_def email0_def email_down_def account0_def

lemma base_create_Inl:
  "base_create lib u w = (Inl x, w') \<Longrightarrow> x = UserAlreadyExists \<and> w' = w"
  by (auto simp: base_create_def Let_def split: option.splits)

lemma base_create_Inr:
  "base_create lib u w = (Inr acc, w') \<Longrightarrow>
     u_email acc = uc_email u \<and> u_name acc = uc_name u \<and> u_id acc = uuid4 lib \<and>
     is_active acc \<and> \<not> is_superuser acc \<and> \<not> is_verified acc \<and>
     w' = w\<lparr>users := users w @ [acc]\<rparr>"
  by (auto simp: base_create_def Let_def split: option.splits)

lemma check_invite_frame:
  "check_invite self u w = (r, w1) \<Longrightarrow>
     users w1 = users w \<and> stdout w1 = stdout w \<and> tasks w1 = tasks w"
  by (auto simp: check_invite_def Let_def split: if_splits prod.splits sum.splits)

lemma check_invite_no_token:
  "\<not> truthy (inviteToken u) \<Longrightarrow> check_invite self u w = (None, w1) \<Longrightarrow> w1 = w"
  by (auto simp: check_invite_def Let_def split: if_splits prod.splits sum.splits)

lemma check_invite_token:
  "truthy (inviteToken u) \<Longrightarrow> check_invite self u w = (r, w1) \<Longrightarrow>
     w1 = w\<lparr>ext := snd (get_valid_invite (invites self) (the (inviteToken u)) u (ext w)),
            calls := calls w @ [Get_valid_invite (the (inviteToken u)) u]\<rparr>"
  by (auto simp: check_invite_def Let_def split: if_splits prod.splits sum.splits)

lemma on_after_register_custom_calls:
  "\<exists>cs. calls (snd (on_after_register_custom self acc u w)) = calls w @ cs"
  by (auto simp: on_after_register_custom_def update_verified_def Let_def
      split: if_splits prod.splits sum.splits option.splits)

section \<open>Registration closed and no invite\<close>

text \<open>
  C3: when open registration is disabled and the request has no invite token (\<open>None\<close>, or
  the empty string, which Python also takes as absent), \<open>create\<close> raises the
  "Invite Token Required" error and leaves the whole world as it was: no account is
  stored, no collaborator is called, nothing is printed and no task is created.
\<close>

theorem create_invite_required:
  assumes "\<not> registration_enabled self" and "\<not> truthy (inviteToken user)"
  shows "create lib self user w = (Inl (HTTPException 400 ''Invite Token Required''), w)"
  using assms by (simp add: create_def check_invite_def default_name_def)

theorem create_invite_required_witness:
  "\<not> registration_enabled (manager0 False ops0) \<and>
   \<not> truthy (inviteToken (request0 None (Some []) True)) \<and>
   create lib0 (manager0 False ops0) (request0 None (Some []) True) world0 =
     (Inl (HTTPException 400 ''Invite Token Required''), world0)"
  using create_invite_required [of "manager0 False ops0" "request0 None (Some []) True" lib0 world0]
  by (simp add: deployment_defs truthy_def)

section \<open>The invite check\<close>

text \<open>
  C4: a request that supplies an invite token (a non-empty string) has it checked by
  \<open>get_valid_invite\<close> before anything else: that call is the first collaborator call of
  the attempt. When the check does not resolve to an invite, the attempt fails (with the
  "Invalid Invite Token" error when the ledger returned a false value, with the ledger's own
  exception when it raised) and the world differs from the initial one by that call alone:
  the user collection is unchanged, and the collaborators' state is the one
  \<open>get_valid_invite\<close> left, so a ledger whose check does not consume leaves the invite
  unconsumed.
\<close>

theorem create_checks_invite_first:
  assumes "inviteToken user = Some token" and "token \<noteq> []"
    and "get_valid_invite (invites self) token (default_name user) (ext w) = (found, e)"
  shows "(\<exists>cs. calls (snd (create lib self user w)) =
               calls w @ Get_valid_invite token (default_name user) # cs) \<and>
         (found \<noteq> Inr True \<longrightarrow>
            (\<exists>x. create lib self user w =
               (Inl x, w\<lparr>ext := e, calls := calls w @ [Get_valid_invite token (default_name user)]\<rparr>))) \<and>
         (found = Inr False \<longrightarrow>
            fst (create lib self user w) = Inl (HTTPException 400 ''Invalid Invite Token''))"
proof -
  let ?u = "default_name user"
  let ?w1 = "w\<lparr>ext := e, calls := calls w @ [Get_valid_invite token ?u]\<rparr>"
  have tok: "inviteToken ?u = Some token" "truthy (inviteToken ?u)"
    using assms(1,2) by (simp_all add: default_name_def truthy_def)
  have chk: "check_invite self ?u w =
      (case found of Inl x \<Rightarrow> Some x
       | Inr y \<Rightarrow> if y then None else Some (HTTPException 400 ''Invalid Invite Token''), ?w1)"
    using tok assms(3) by (simp add: check_invite_def split: sum.splits)
  have fails: "found \<noteq> Inr True \<longrightarrow> (\<exists>x. create lib self user w = (Inl x, ?w1))"
    using chk by (cases found) (auto simp: create_def Let_def)
  have kind: "found = Inr False \<longrightarrow>
      fst (create lib self user w) = Inl (HTTPException 400 ''Invalid Invite Token'')"
    using chk by (auto simp: create_def Let_def)
  have first: "\<exists>cs. calls (snd (create lib self user w)) = calls w @ Get_valid_invite token ?u # cs"
  proof (cases "found = Inr True")
    case False
    with fails obtain x where "create lib self user w = (Inl x, ?w1)" by blast
    then show ?thesis by simp
  next
    case True
    with chk have c: "check_invite self ?u w = (None, ?w1)" by simp
    show ?thesis
    proof (cases "base_create lib ?u ?w1")
      case (Pair r w2)
      show ?thesis
      proof (cases r)
        case (Inl x)
        with Pair base_create_Inl [of lib ?u ?w1 x w2] c show ?thesis
          by (simp add: create_def Let_def)
      next
        case (Inr acc)
        with Pair base_create_Inr [of lib ?u ?w1 acc w2]
        have w2: "calls w2 = calls w @ [Get_valid_invite token ?u]" by simp
        from on_after_register_custom_calls [of self acc ?u w2]
        obtain cs where "calls (snd (on_after_register_custom self acc ?u w2)) = calls w2 @ cs"
          by blast
        with w2 Pair Inr c show ?thesis by (simp add: create_def Let_def)
      qed
    qed
  qed
  from first fails kind show ?thesis by blast
qed

theorem create_checks_invite_first_witness:
  "inviteToken (request0 None (Some ''bad'') True) = Some ''bad'' \<and> ''bad'' \<noteq> [] \<and>
   get_valid_invite (invites (manager0 True ops0)) ''bad''
     (default_name (request0 None (Some ''bad'') True)) (ext world0) = (Inr False, [''tok'']) \<and>
   create lib0 (manager0 True ops0) (request0 None (Some ''bad'') True) world0 =
     (Inl (HTTPException 400 ''Invalid Invite Token''),
      world0\<lparr>calls := [Get_valid_invite ''bad'' (default_name (request0 None (Some ''bad'') True))]\<rparr>)"
  using create_checks_invite_first [of "request0 None (Some ''bad'') True" "''bad''"
      "manager0 True ops0" world0 "Inr False" "[''tok'']" lib0]
  by (auto simp add: deployment_defs)

section \<open>Account creation fails\<close>

text \<open>
  C5: when the checks pass and the creation of the account fails (the library raises
  \<open>UserAlreadyExists\<close> for an email that is taken), \<open>create\<close> raises that error and
  nothing after the checks has run: the user collection, the tasks and the output are
  unchanged, and the only collaborator call is the check of the invite token, when there is
  a token. So no archive is provisioned, no verification task is created, the invite is not
  redeemed and no account is marked verified.
\<close>

theorem create_aborts_when_creation_fails:
  assumes "check_invite self (default_name user) w = (None, w1)"
    and "base_create lib (default_name user) w1 = (Inl x, w2)"
  shows "create lib self user w = (Inl x, w1) \<and>
         users w1 = users w \<and> tasks w1 = tasks w \<and> stdout w1 = stdout w \<and>
         (if truthy (inviteToken user)
          then calls w1 = calls w @ [Get_valid_invite (the (inviteToken user)) (default_name user)] \<and>
               ext w1 = snd (get_valid_invite (invites self) (the (inviteToken user))
                               (default_name user) (ext w))
          else calls w1 = calls w \<and> ext w1 = ext w)"
proof -
  let ?u = "default_name user"
  have tok: "inviteToken ?u = inviteToken user" by (simp add: default_name_def)
  from assms(2) have "w2 = w1" using base_create_Inl by blast
  with assms have res: "create lib self user w = (Inl x, w1)"
    by (simp add: create_def Let_def)
  have frame: "users w1 = users w \<and> tasks w1 = tasks w \<and> stdout w1 = stdout w"
    using check_invite_frame [OF assms(1)] by simp
  show ?thesis
  proof (cases "truthy (inviteToken user)")
    case True
    with check_invite_token [of ?u self w None w1] assms(1) tok res frame
    show ?thesis by simp
  next
    case False
    with check_invite_no_token [of ?u self w w1] assms(1) tok res frame
    show ?thesis by simp
  qed
qed

theorem create_aborts_when_creation_fails_witness:
  "check_invite (manager0 False ops0) (default_name (request0 None (Some ''tok'') True)) world1 =
     (None, world1\<lparr>calls := [Get_valid_invite ''tok'' (default_name (request0 None (Some ''tok'') True))]\<rparr>) \<and>
   base_create lib0 (default_name (request0 None (Some ''tok'') True))
     (world1\<lparr>calls := [Get_valid_invite ''tok'' (default_name (request0 None (Some ''tok'') True))]\<rparr>) =
     (Inl UserAlreadyExists,
      world1\<lparr>calls := [Get_valid_invite ''tok'' (default_name (request0 None (Some ''tok'') True))]\<rparr>) \<and>
   create lib0 (manager0 False ops0) (request0 None (Some ''tok'') True) world1 =
     (Inl UserAlreadyExists,
      world1\<lparr>calls := [Get_valid_invite ''tok'' (default_name (request0 None (Some ''tok'') True))]\<rparr>)"
proof -
  let ?u = "default_name (request0 None (Some ''tok'') True)"
  let ?w1 = "world1\<lparr>calls := [Get_valid_invite ''tok'' ?u]\<rparr>"
  have c: "check_invite (manager0 False ops0) ?u world1 = (None, ?w1)"
    by (simp add: check_invite_def deployment_defs default_name_def truthy_def Let_def)
  have b: "base_create lib0 ?u ?w1 = (Inl UserAlreadyExists, ?w1)"
    by (simp add: base_create_def get_by_email_def lower_char_def deployment_defs default_name_def Let_def)
  from create_aborts_when_creation_fails [OF c b] c b show ?thesis by simp
qed

section \<open>Post-processing\<close>

lemmas registration_defs =
  create_def check_invite_def default_name_def base_create_def get_by_email_def
  on_after_register_custom_def archive_name_def update_verified_def truthy_def py_or_def Let_def

lemma archive_name_default_name [simp]:
  "archive_name acc (default_name user) = archive_name acc user"
  by (simp add: archive_name_def default_name_def)

lemma default_name_fields [simp]:
  "newArchive (default_name user) = newArchive user"
  "inviteToken (default_name user) = inviteToken user"
  "uc_email (default_name user) = uc_email user"
  "uc_name (default_name user) = Some (py_or (uc_name user) (uc_email user))"
  by (simp_all add: default_name_def)

lemma create_post:
  assumes "check_invite self (default_name user) w = (None, w1)"
    and "base_create lib (default_name user) w1 = (Inr acc, w2)"
  shows "create lib self user w = on_after_register_custom self acc (default_name user) w2"
  using assms by (simp add: create_def Let_def)

lemma py_or_default: "py_or (Some (py_or a b)) b = py_or a b"
  by (simp add: py_or_def split: option.splits)

lemma py_or_blank: "\<not> truthy a \<Longrightarrow> py_or a b = b"
  by (auto simp: py_or_def truthy_def split: option.splits)

lemma archive_name_blank:
  "\<not> truthy (newArchiveName u) \<Longrightarrow>
     archive_name acc u = py_or (u_name acc) (u_email acc) @ '''s Archive''"
  by (auto simp: archive_name_def truthy_def py_or_def split: option.splits)

lemma archive_raises:
  assumes "newArchive u" and "archive_ops self = Some ops"
    and "create_new_archive_for_user ops (archive_name acc u) ''default'' acc (ext w) = (Some x, e)"
  shows "on_after_register_custom self acc u w =
     (Inl x, w\<lparr>stdout := stdout w @ [Line (''User '' @ u_id acc @ '' has registered.''),
                                     Line (''Creating new archive for '' @ u_id acc)],
               ext := e,
               calls := calls w @ [Create_new_archive_for_user (archive_name acc u) ''default'' acc]\<rparr>)"
  using assms by (simp add: on_after_register_custom_def Let_def)

lemma archive_call_first:
  assumes "newArchive u" and "archive_ops self = Some ops"
  shows "\<exists>cs. calls (snd (on_after_register_custom self acc u w)) =
           calls w @ Create_new_archive_for_user (archive_name acc u) ''default'' acc # cs"
  using assms
  by (auto simp: on_after_register_custom_def update_verified_def Let_def
      split: if_splits prod.splits sum.splits option.splits)

lemma replace_one_mem:
  "a \<in> set xs \<Longrightarrow> u_id a = i \<Longrightarrow> u \<in> set (replace_one i u xs)"
  by (induction xs) auto

lemma replace_one_length: "length (replace_one i u xs) = length xs"
  by (induction xs) auto

lemma invite_step:
  assumes "newArchive u \<longrightarrow>
             fst (create_new_archive_for_user ops (archive_name acc u) ''default'' acc (ext w)) = None"
    and "archive_ops self = Some ops"
    and "inviteToken u = Some token" and "token \<noteq> []"
    and "handle_new_user_invite ops token acc
           (if newArchive u
            then snd (create_new_archive_for_user ops (archive_name acc u) ''default'' acc (ext w))
            else ext w) = (r, e2)"
    and "r = None \<or> (\<exists>s d. r = Some (HTTPException s d))"
    and "on_after_register_custom self acc u w = (res, w')"
  shows "res = Inr (acc\<lparr>is_verified := True\<rparr>) \<and>
         users w' = replace_one (u_id acc) (acc\<lparr>is_verified := True\<rparr>) (users w) \<and>
         ext w' = e2 \<and> tasks w' = tasks w \<and>
         Handle_new_user_invite token acc \<in> set (calls w') \<and>
         (\<forall>x. r = Some x \<longrightarrow> Exc_line x \<in> set (stdout w'))"
proof (cases "newArchive u")
  case True
  obtain r1 e1 where a: "create_new_archive_for_user ops (archive_name acc u) ''default'' acc
       (ext w) = (r1, e1)" by fastforce
  with assms(1) True have r1: "r1 = None" by simp
  from assms(5) True a have h: "handle_new_user_invite ops token acc e1 = (r, e2)" by simp
  from assms(6) show ?thesis
  proof
    assume "r = None"
    with assms(7) True a r1 h assms(2,3,4) show ?thesis
      by (auto simp: on_after_register_custom_def update_verified_def truthy_def Let_def)
  next
    assume "\<exists>s d. r = Some (HTTPException s d)"
    then obtain s d where "r = Some (HTTPException s d)" by blast
    with assms(7) True a r1 h assms(2,3,4) show ?thesis
      by (auto simp: on_after_register_custom_def update_verified_def truthy_def Let_def)
  qed
next
  case False
  from assms(5) False have h: "handle_new_user_invite ops token acc (ext w) = (r, e2)" by simp
  from assms(6) show ?thesis
  proof
    assume "r = None"
    with assms(7) False h assms(2,3,4) show ?thesis
      by (auto simp: on_after_register_custom_def update_verified_def truthy_def Let_def)
  next
    assume "\<exists>s d. r = Some (HTTPException s d)"
    then obtain s d where "r = Some (HTTPException s d)" by blast
    with assms(7) False h assms(2,3,4) show ?thesis
      by (auto simp: on_after_register_custom_def update_verified_def truthy_def Let_def)
  qed
qed

lemma no_token_post:
  assumes "\<not> truthy (inviteToken u)" and "on_after_register_custom self acc u w = (res, w')"
  shows "(case res of Inl x \<Rightarrow> tasks w' = tasks w
          | Inr a \<Rightarrow> a = acc \<and> tasks w' = tasks w @ [Request_verify acc]) \<and>
         (\<forall>a t. Send_user_validation a t \<in> set (calls w') \<longrightarrow>
                Send_user_validation a t \<in> set (calls w))"
  using assms
  by (auto simp: on_after_register_custom_def Let_def
      split: if_splits prod.splits sum.splits option.splits)

lemma check_invite_no_email_call:
  assumes "check_invite self u w = (r, w1)"
  shows "\<forall>a t. Send_user_validation a t \<in> set (calls w1) \<longrightarrow>
               Send_user_validation a t \<in> set (calls w)"
  using assms
  by (auto simp: check_invite_def Let_def split: if_splits prod.splits sum.splits)

lemma email_irrelevant_check:
  "check_invite (self\<lparr>email := em\<rparr>) u w = check_invite self u w"
  by (simp add: check_invite_def Let_def cong: option.case_cong prod.case_cong if_cong)

lemma email_irrelevant_post:
  "on_after_register_custom (self\<lparr>email := em\<rparr>) acc u w = on_after_register_custom self acc u w"
  by (simp add: on_after_register_custom_def Let_def
      cong: option.case_cong prod.case_cong if_cong)

lemma email_irrelevant_create:
  "create lib (self\<lparr>email := em\<rparr>) user w = create lib self user w"
  by (simp add: create_def email_irrelevant_check email_irrelevant_post Let_def
      cong: option.case_cong prod.case_cong sum.case_cong)

subsection \<open>A failing archive collaborator\<close>

text \<open>
  C1, as the code has it: when an attempt has passed the checks, its account \<open>acc\<close> has been
  created, a new archive is requested and \<open>create_new_archive_for_user\<close> raises \<open>x\<close>, then
  \<open>create\<close> raises \<open>x\<close> to its caller instead of returning the account. The call is
  awaited outside any \<open>try\<close>. The account stays in the user collection, unverified, and
  nothing after the archive call runs: the invite is not handled and no verification task
  is created.
\<close>

theorem archive_failure_fails_registration:
  assumes "check_invite self (default_name user) w = (None, w1)"
    and "base_create lib (default_name user) w1 = (Inr acc, w2)"
    and "newArchive user" and "archive_ops self = Some ops"
    and "create_new_archive_for_user ops (archive_name acc user) ''default'' acc (ext w2) =
           (Some x, e)"
  shows "create lib self user w =
           (Inl x, w2\<lparr>stdout := stdout w2 @ [Line (''User '' @ u_id acc @ '' has registered.''),
                                     Line (''Creating new archive for '' @ u_id acc)],
                     ext := e,
                     calls := calls w2 @
                       [Create_new_archive_for_user (archive_name acc user) ''default'' acc]\<rparr>) \<and>
         users w2 = users w @ [acc] \<and> \<not> is_verified acc \<and> tasks w2 = tasks w"
proof -
  from base_create_Inr [OF assms(2)] check_invite_frame [OF assms(1)]
  have fr: "users w2 = users w @ [acc]" "\<not> is_verified acc" "tasks w2 = tasks w"
    by simp_all
  from archive_raises [of "default_name user" self ops acc w2 x e] assms(3,4,5)
    create_post [OF assms(1,2)] fr
  show ?thesis by simp
qed

theorem archive_failure_fails_registration_witness:
  "check_invite (manager0 True ops_timeout) (default_name (request0 None None True)) world0 =
     (None, world0) \<and>
   base_create lib0 (default_name (request0 None None True)) world0 =
     (Inr (account0 False), world0\<lparr>users := [account0 False]\<rparr>) \<and>
   newArchive (request0 None None True) \<and>
   archive_ops (manager0 True ops_timeout) = Some ops_timeout \<and>
   create_new_archive_for_user ops_timeout ''a@example.com's Archive'' ''default''
     (account0 False) (ext world0) = (Some (Raised ''TimeoutError''), [''tok'']) \<and>
   create lib0 (manager0 True ops_timeout) (request0 None None True) world0 =
     (Inl (Raised ''TimeoutError''),
      world0\<lparr>users := [account0 False],
             stdout := [Line ''User u1 has registered.'', Line ''Creating new archive for u1''],
             calls := [Create_new_archive_for_user ''a@example.com's Archive'' ''default''
                         (account0 False)]\<rparr>)"
proof -
  let ?self = "manager0 True ops_timeout"
  let ?user = "request0 None None True"
  have c: "check_invite ?self (default_name ?user) world0 = (None, world0)"
    by (simp add: check_invite_def default_name_def truthy_def deployment_defs)
  have b: "base_create lib0 (default_name ?user) world0 =
      (Inr (account0 False), world0\<lparr>users := [account0 False]\<rparr>)"
    by (simp add: base_create_def get_by_email_def default_name_def py_or_def Let_def
        deployment_defs)
  have n: "newArchive ?user" by (simp add: request0_def)
  have a: "archive_ops ?self = Some ops_timeout"
    by (simp add: manager0_def set_archive_ops_def)
  have nm: "archive_name (account0 False) ?user = ''a@example.com's Archive''"
    by (simp add: archive_name_def py_or_def request0_def account0_def)
  have r: "create_new_archive_for_user ops_timeout (archive_name (account0 False) ?user)
      ''default'' (account0 False) (ext (world0\<lparr>users := [account0 False]\<rparr>)) =
      (Some (Raised ''TimeoutError''), [''tok''])"
    by (simp add: ops_timeout_def world0_def)
  have r': "create_new_archive_for_user ops_timeout ''a@example.com's Archive'' ''default''
     (account0 False) (ext world0) = (Some (Raised ''TimeoutError''), [''tok''])"
    by (simp add: ops_timeout_def world0_def)
  from archive_failure_fails_registration [OF c b n a r] c b n a r' nm
  show ?thesis by (simp add: account0_def world0_def)
qed

text \<open>
  The claim as stated fails: with open registration, a request for a new archive and
  archive operations that time out, \<open>create\<close> raises the timeout although the account has
  been stored.
\<close>

theorem archive_failure_counterexample:
  "newArchive (request0 None None True) \<and>
   fst (create_new_archive_for_user ops_timeout ''a@example.com's Archive'' ''default''
          (account0 False) [''tok'']) = Some (Raised ''TimeoutError'') \<and>
   users (snd (create lib0 (manager0 True ops_timeout) (request0 None None True) world0)) =
     [account0 False] \<and>
   fst (create lib0 (manager0 True ops_timeout) (request0 None None True) world0) =
     Inl (Raised ''TimeoutError'')"
  by (simp add: registration_defs deployment_defs)

subsection \<open>A failing invite collaborator\<close>

text \<open>
  C2, as the code has it: when an attempt with an invite token has passed the checks, its
  account \<open>acc\<close> has been created, the archive step (if requested) has not raised, and
  \<open>handle_new_user_invite\<close> either returns or raises an \<open>HTTPException\<close>, then the
  exception is printed and not propagated, the account is stored with
  \<open>is_verified = True\<close> and returned so, and no verification task is created. The
  \<open>except\<close> clause names \<open>HTTPException\<close> only.
\<close>

theorem invite_http_failure_swallowed_then_verified:
  assumes "check_invite self (default_name user) w = (None, w1)"
    and "base_create lib (default_name user) w1 = (Inr acc, w2)"
    and "inviteToken user = Some token" and "token \<noteq> []"
    and "archive_ops self = Some ops"
    and "newArchive user \<longrightarrow>
           fst (create_new_archive_for_user ops (archive_name acc user) ''default'' acc (ext w2)) =
             None"
    and "handle_new_user_invite ops token acc
           (if newArchive user
            then snd (create_new_archive_for_user ops (archive_name acc user) ''default'' acc
                        (ext w2))
            else ext w2) = (r, e2)"
    and "r = None \<or> (\<exists>s d. r = Some (HTTPException s d))"
  shows "fst (create lib self user w) = Inr (acc\<lparr>is_verified := True\<rparr>) \<and>
         acc\<lparr>is_verified := True\<rparr> \<in> set (users (snd (create lib self user w))) \<and>
         length (users (snd (create lib self user w))) = Suc (length (users w)) \<and>
         ext (snd (create lib self user w)) = e2 \<and>
         tasks (snd (create lib self user w)) = tasks w \<and>
         Handle_new_user_invite token acc \<in> set (calls (snd (create lib self user w))) \<and>
         (\<forall>x. r = Some x \<longrightarrow> Exc_line x \<in> set (stdout (snd (create lib self user w))))"
proof -
  let ?u = "default_name user"
  obtain res w' where o: "on_after_register_custom self acc ?u w2 = (res, w')" by fastforce
  from base_create_Inr [OF assms(2)] check_invite_frame [OF assms(1)]
  have fr: "users w2 = users w @ [acc]" "tasks w2 = tasks w" by simp_all
  have a1: "newArchive ?u \<longrightarrow>
      fst (create_new_archive_for_user ops (archive_name acc ?u) ''default'' acc (ext w2)) = None"
    using assms(6) by simp
  have a3: "inviteToken ?u = Some token" using assms(3) by simp
  have a5: "handle_new_user_invite ops token acc
           (if newArchive ?u
            then snd (create_new_archive_for_user ops (archive_name acc ?u) ''default'' acc (ext w2))
            else ext w2) = (r, e2)"
    using assms(7) by (cases "newArchive user") simp_all
  from invite_step [OF a1 assms(5) a3 assms(4) a5 assms(8) o]
  have p: "res = Inr (acc\<lparr>is_verified := True\<rparr>)"
    "users w' = replace_one (u_id acc) (acc\<lparr>is_verified := True\<rparr>) (users w2)"
    "ext w' = e2" "tasks w' = tasks w2"
    "Handle_new_user_invite token acc \<in> set (calls w')"
    "\<forall>x. r = Some x \<longrightarrow> Exc_line x \<in> set (stdout w')"
    by simp_all
  have m: "acc\<lparr>is_verified := True\<rparr> \<in> set (users w')"
    using p(2) fr(1) replace_one_mem [of acc "users w2" "u_id acc" "acc\<lparr>is_verified := True\<rparr>"]
    by simp
  have l: "length (users w') = Suc (length (users w))"
    using p(2) fr(1) by (simp add: replace_one_length)
  from create_post [OF assms(1,2)] o have "create lib self user w = (res, w')" by simp
  with p m l fr show ?thesis by simp
qed

theorem invite_http_failure_swallowed_then_verified_witness:
  "check_invite (manager0 False ops_reject) (default_name (request0 None (Some ''tok'') False))
     world0 =
     (None, world0\<lparr>calls := [Get_valid_invite ''tok''
                                (default_name (request0 None (Some ''tok'') False))]\<rparr>) \<and>
   inviteToken (request0 None (Some ''tok'') False) = Some ''tok'' \<and>
   archive_ops (manager0 False ops_reject) = Some ops_reject \<and>
   \<not> newArchive (request0 None (Some ''tok'') False) \<and>
   handle_new_user_invite ops_reject ''tok'' (account0 False) [''tok''] =
     (Some (HTTPException 400 ''Invalid Invite''), [''tok'']) \<and>
   fst (create lib0 (manager0 False ops_reject) (request0 None (Some ''tok'') False) world0) =
     Inr (account0 True) \<and>
   account0 True \<in> set (users (snd (create lib0 (manager0 False ops_reject)
                                      (request0 None (Some ''tok'') False) world0))) \<and>
   Exc_line (HTTPException 400 ''Invalid Invite'') \<in>
     set (stdout (snd (create lib0 (manager0 False ops_reject)
                         (request0 None (Some ''tok'') False) world0)))"
proof -
  let ?self = "manager0 False ops_reject"
  let ?user = "request0 None (Some ''tok'') False"
  let ?w1 = "world0\<lparr>calls := [Get_valid_invite ''tok'' (default_name ?user)]\<rparr>"
  let ?w2 = "?w1\<lparr>users := [account0 False]\<rparr>"
  have c: "check_invite ?self (default_name ?user) world0 = (None, ?w1)"
    by (simp add: check_invite_def default_name_def truthy_def Let_def deployment_defs)
  have b: "base_create lib0 (default_name ?user) ?w1 = (Inr (account0 False), ?w2)"
    by (simp add: base_create_def get_by_email_def default_name_def py_or_def Let_def
        deployment_defs)
  have t: "inviteToken ?user = Some ''tok''" by (simp add: request0_def)
  have n: "\<not> newArchive ?user" by (simp add: request0_def)
  have a: "archive_ops ?self = Some ops_reject"
    by (simp add: manager0_def set_archive_ops_def)
  have n': "newArchive ?user \<longrightarrow>
      fst (create_new_archive_for_user ops_reject (archive_name (account0 False) ?user)
             ''default'' (account0 False) (ext ?w2)) = None"
    using n by simp
  have h: "handle_new_user_invite ops_reject ''tok'' (account0 False)
      (if newArchive ?user
       then snd (create_new_archive_for_user ops_reject (archive_name (account0 False) ?user)
                   ''default'' (account0 False) (ext ?w2))
       else ext ?w2) = (Some (HTTPException 400 ''Invalid Invite''), [''tok''])"
    using n by (simp add: ops_reject_def world0_def)
  have h': "handle_new_user_invite ops_reject ''tok'' (account0 False) [''tok''] =
     (Some (HTTPException 400 ''Invalid Invite''), [''tok''])"
    by (simp add: ops_reject_def)
  have v: "(account0 False)\<lparr>is_verified := True\<rparr> = account0 True"
    by (simp add: account0_def)
  from invite_http_failure_swallowed_then_verified [OF c b t _ a n' h] c t a n h' v
  show ?thesis by simp
qed

text \<open>
  The claim as stated fails in two ways. When \<open>handle_new_user_invite\<close> raises an
  exception that is not an \<open>HTTPException\<close> (here a timeout), \<open>create\<close> raises it and the
  stored account stays unverified. And when a new archive is requested as well and the
  archive call raises, \<open>handle_new_user_invite\<close> is never called and the stored account
  stays unverified too.
\<close>

theorem invite_failure_counterexample:
  "inviteToken (request0 None (Some ''tok'') False) = Some ''tok'' \<and>
   handle_new_user_invite ops_timeout ''tok'' (account0 False) [''tok''] =
     (Some (Raised ''TimeoutError''), [''tok'']) \<and>
   fst (create lib0 (manager0 False ops_timeout) (request0 None (Some ''tok'') False) world0) =
     Inl (Raised ''TimeoutError'') \<and>
   users (snd (create lib0 (manager0 False ops_timeout) (request0 None (Some ''tok'') False)
                 world0)) = [account0 False] \<and>
   \<not> is_verified (account0 False) \<and>
   fst (create lib0 (manager0 False ops_timeout) (request0 None (Some ''tok'') True) world0) =
     Inl (Raised ''TimeoutError'') \<and>
   users (snd (create lib0 (manager0 False ops_timeout) (request0 None (Some ''tok'') True)
                 world0)) = [account0 False] \<and>
   calls (snd (create lib0 (manager0 False ops_timeout) (request0 None (Some ''tok'') True)
                 world0)) =
     [Get_valid_invite ''tok'' (default_name (request0 None (Some ''tok'') True)),
      Create_new_archive_for_user ''a@example.com's Archive'' ''default'' (account0 False)]"
  by (simp add: registration_defs deployment_defs)

subsection \<open>Default names\<close>

text \<open>
  C6: the name of the request is replaced by \<open>name or email\<close> before the checks, so a
  blank name (\<open>None\<close> or empty) becomes the email, and the created account carries it.
  When a new archive is requested with a blank \<open>newArchiveName\<close>, the first call of
  post-processing is \<open>create_new_archive_for_user\<close> with the name
  \<open>(name or email) + "'s Archive"\<close>, the storage name \<open>default\<close> and the created account.
  The witness is the request of the spec's scenario: email \<open>a@example.com\<close>, blank name,
  blank archive name, archive name passed \<open>a@example.com's Archive\<close>.
\<close>

theorem blank_names_default:
  assumes "check_invite self (default_name user) w = (None, w1)"
    and "base_create lib (default_name user) w1 = (Inr acc, w2)"
    and "newArchive user" and "\<not> truthy (newArchiveName user)"
    and "archive_ops self = Some ops"
  shows "u_name acc = Some (py_or (uc_name user) (uc_email user)) \<and>
         u_email acc = uc_email user \<and>
         (\<not> truthy (uc_name user) \<longrightarrow>
            uc_name (default_name user) = Some (uc_email user) \<and>
            u_name acc = Some (uc_email user)) \<and>
         (\<exists>cs. calls (snd (create lib self user w)) =
            calls w2 @ Create_new_archive_for_user
              (py_or (uc_name user) (uc_email user) @ '''s Archive'') ''default'' acc # cs)"
proof -
  from base_create_Inr [OF assms(2)]
  have acc: "u_name acc = Some (py_or (uc_name user) (uc_email user))"
    "u_email acc = uc_email user" by simp_all
  have nm: "archive_name acc (default_name user) =
      py_or (uc_name user) (uc_email user) @ '''s Archive''"
    using archive_name_blank [OF assms(4), of acc] acc by (simp add: py_or_default)
  have n: "newArchive (default_name user)" using assms(3) by simp
  from archive_call_first [OF n assms(5), of acc w2] nm create_post [OF assms(1,2)]
  have c: "\<exists>cs. calls (snd (create lib self user w)) =
            calls w2 @ Create_new_archive_for_user
              (py_or (uc_name user) (uc_email user) @ '''s Archive'') ''default'' acc # cs"
    by simp
  from acc c show ?thesis by (simp add: py_or_blank)
qed

theorem blank_names_default_witness:
  "check_invite (manager0 True ops0) (default_name (request0 (Some []) None True)) world0 =
     (None, world0) \<and>
   base_create lib0 (default_name (request0 (Some []) None True)) world0 =
     (Inr (account0 False), world0\<lparr>users := [account0 False]\<rparr>) \<and>
   newArchive (request0 (Some []) None True) \<and>
   \<not> truthy (newArchiveName (request0 (Some []) None True)) \<and>
   \<not> truthy (uc_name (request0 (Some []) None True)) \<and>
   uc_email (request0 (Some []) None True) = ''a@example.com'' \<and>
   archive_ops (manager0 True ops0) = Some ops0 \<and>
   u_name (account0 False) = Some ''a@example.com'' \<and>
   (\<exists>cs. calls (snd (create lib0 (manager0 True ops0) (request0 (Some []) None True) world0)) =
      Create_new_archive_for_user ''a@example.com's Archive'' ''default'' (account0 False) # cs)"
proof -
  let ?self = "manager0 True ops0"
  let ?user = "request0 (Some []) None True"
  have c: "check_invite ?self (default_name ?user) world0 = (None, world0)"
    by (simp add: check_invite_def default_name_def truthy_def deployment_defs)
  have b: "base_create lib0 (default_name ?user) world0 =
      (Inr (account0 False), world0\<lparr>users := [account0 False]\<rparr>)"
    by (simp add: base_create_def get_by_email_def default_name_def py_or_def Let_def
        deployment_defs)
  have n: "newArchive ?user" by (simp add: request0_def)
  have k: "\<not> truthy (newArchiveName ?user)" by (simp add: request0_def truthy_def)
  have k': "\<not> truthy (uc_name ?user)" by (simp add: request0_def truthy_def)
  have e: "uc_email ?user = ''a@example.com''" by (simp add: request0_def)
  have a: "archive_ops ?self = Some ops0"
    by (simp add: manager0_def set_archive_ops_def)
  have p: "py_or (uc_name ?user) (uc_email ?user) = ''a@example.com''"
    by (simp add: request0_def py_or_def)
  have w: "calls (world0\<lparr>users := [account0 False]\<rparr>) = []" by (simp add: world0_def)
  from blank_names_default [OF c b n k a]
  have "\<exists>cs. calls (snd (create lib0 ?self ?user world0)) =
      calls (world0\<lparr>users := [account0 False]\<rparr>) @
      Create_new_archive_for_user (py_or (uc_name ?user) (uc_email ?user) @ [CHR 0x27] @ ''s Archive'')
        ''default'' (account0 False) # cs"
    by simp
  then have x: "\<exists>cs. calls (snd (create lib0 ?self ?user world0)) =
      Create_new_archive_for_user (''a@example.com'' @ [CHR 0x27] @ ''s Archive'')
        ''default'' (account0 False) # cs"
    by (simp only: p w append_Nil)
  have u: "u_name (account0 False) = Some ''a@example.com''" by (simp add: account0_def)
  from x c b n k k' e a u show ?thesis by simp
qed

subsection \<open>The verification email\<close>

lemma request_verify_unverified:
  "is_active u \<Longrightarrow> \<not> is_verified u \<Longrightarrow>
     request_verify lib self u w =
       (let token = generate_jwt lib [(''user_id'', u_id u), (''email'', u_email u),
                                      (''aud'', ''fastapi-users:verify'')]
                      (verification_token_secret self) 3600
        in (fst (send_user_validation (email self) (u_email u) token (ext w)),
            w\<lparr>ext := snd (send_user_validation (email self) (u_email u) token (ext w)),
              calls := calls w @ [Send_user_validation (u_email u) token]\<rparr>))"
  by (simp add: request_verify_def on_after_request_verify_def Let_def split: prod.splits)

lemma run_next_task_single:
  assumes "tasks w' = [Request_verify acc]" and "is_active acc" and "\<not> is_verified acc"
  shows "run_next_task lib self w' =
     w'\<lparr>tasks := [],
        ext := snd (send_user_validation (email self) (u_email acc)
                      (generate_jwt lib [(''user_id'', u_id acc), (''email'', u_email acc),
                                         (''aud'', ''fastapi-users:verify'')]
                         (verification_token_secret self) 3600) (ext w')),
        calls := calls w' @ [Send_user_validation (u_email acc)
                      (generate_jwt lib [(''user_id'', u_id acc), (''email'', u_email acc),
                                         (''aud'', ''fastapi-users:verify'')]
                         (verification_token_secret self) 3600)]\<rparr>"
  using assms by (simp add: run_next_task_def request_verify_unverified Let_def)

lemma no_token_archive_ok:
  assumes "\<not> truthy (inviteToken u)"
    and "newArchive u \<longrightarrow>
           (\<exists>ops. archive_ops self = Some ops \<and>
                  fst (create_new_archive_for_user ops (archive_name acc u) ''default'' acc
                         (ext w)) = None)"
  shows "fst (on_after_register_custom self acc u w) = Inr acc"
  using assms
  by (auto simp: on_after_register_custom_def Let_def split: prod.splits option.splits)

text \<open>
  C9, as the code has it: for a request without an invite token, \<open>create\<close> does not
  depend on the email sender at all: with any other sender \<open>em\<close> in its place the result
  and the world are the same. An attempt that passes the checks, creates its account \<open>acc\<close>
  and whose archive call, when an archive is requested, does not raise, returns \<open>acc\<close>.
  Whenever \<open>create\<close> returns the account, exactly one task has been added to the pending
  tasks, \<open>request_verify\<close> for that account, and no \<open>send_user_validation\<close> call has been
  made yet. When the event loop later runs that task, it signs a verification token with the
  manager's verification secret and calls \<open>send_user_validation\<close> of the email sender with
  the account's email and the token; whether that call raises has no effect on the world
  beyond what the sender itself left. When \<open>create\<close> raises, no task has been added.
\<close>

theorem verification_is_a_pending_task:
  assumes "\<not> truthy (inviteToken user)"
  shows "create lib (self\<lparr>email := em\<rparr>) user w = create lib self user w \<and>
         (\<forall>w1 acc w2.
            check_invite self (default_name user) w = (None, w1) \<and>
            base_create lib (default_name user) w1 = (Inr acc, w2) \<and>
            (newArchive user \<longrightarrow>
               (\<exists>ops. archive_ops self = Some ops \<and>
                      fst (create_new_archive_for_user ops (archive_name acc user) ''default'' acc
                             (ext w2)) = None)) \<longrightarrow>
            fst (create lib self user w) = Inr acc) \<and>
         (\<forall>acc. fst (create lib self user w) = Inr acc \<longrightarrow>
            tasks (snd (create lib self user w)) = tasks w @ [Request_verify acc] \<and>
            (tasks w = [] \<longrightarrow>
               run_next_task lib self (snd (create lib self user w)) =
                 (snd (create lib self user w))
                   \<lparr>tasks := [],
                    ext := snd (send_user_validation (email self) (u_email acc)
                      (generate_jwt lib [(''user_id'', u_id acc), (''email'', u_email acc),
                                         (''aud'', ''fastapi-users:verify'')]
                         (verification_token_secret self) 3600)
                      (ext (snd (create lib self user w)))),
                    calls := calls (snd (create lib self user w)) @
                      [Send_user_validation (u_email acc)
                        (generate_jwt lib [(''user_id'', u_id acc), (''email'', u_email acc),
                                           (''aud'', ''fastapi-users:verify'')]
                           (verification_token_secret self) 3600)]\<rparr>)) \<and>
         (\<forall>x. fst (create lib self user w) = Inl x \<longrightarrow>
            tasks (snd (create lib self user w)) = tasks w) \<and>
         (\<forall>a t. Send_user_validation a t \<in> set (calls (snd (create lib self user w))) \<longrightarrow>
                Send_user_validation a t \<in> set (calls w))"
proof -
  let ?u = "default_name user"
  let ?tok = "\<lambda>acc. generate_jwt lib [(''user_id'', u_id acc), (''email'', u_email acc),
                                         (''aud'', ''fastapi-users:verify'')]
                         (verification_token_secret self) 3600"
  let ?P = "\<lambda>res w'.
         (\<forall>acc. res = Inr acc \<longrightarrow>
            tasks w' = tasks w @ [Request_verify acc] \<and>
            (tasks w = [] \<longrightarrow>
               run_next_task lib self w' =
                 w'\<lparr>tasks := [],
                    ext := snd (send_user_validation (email self) (u_email acc) (?tok acc) (ext w')),
                    calls := calls w' @ [Send_user_validation (u_email acc) (?tok acc)]\<rparr>)) \<and>
         (\<forall>x. res = Inl x \<longrightarrow> tasks w' = tasks w) \<and>
         (\<forall>a t. Send_user_validation a t \<in> set (calls w') \<longrightarrow>
                Send_user_validation a t \<in> set (calls w))"
  have tok: "\<not> truthy (inviteToken ?u)" using assms by simp
  have reach: "\<forall>w1 acc w2.
            check_invite self ?u w = (None, w1) \<and>
            base_create lib ?u w1 = (Inr acc, w2) \<and>
            (newArchive user \<longrightarrow>
               (\<exists>ops. archive_ops self = Some ops \<and>
                      fst (create_new_archive_for_user ops (archive_name acc user) ''default'' acc
                             (ext w2)) = None)) \<longrightarrow>
            fst (create lib self user w) = Inr acc"
  proof (intro allI impI, elim conjE)
    fix w1 acc w2
    assume c: "check_invite self ?u w = (None, w1)"
      and b: "base_create lib ?u w1 = (Inr acc, w2)"
      and a: "newArchive user \<longrightarrow>
               (\<exists>ops. archive_ops self = Some ops \<and>
                      fst (create_new_archive_for_user ops (archive_name acc user) ''default'' acc
                             (ext w2)) = None)"
    from a have a': "newArchive ?u \<longrightarrow>
               (\<exists>ops. archive_ops self = Some ops \<and>
                      fst (create_new_archive_for_user ops (archive_name acc ?u) ''default'' acc
                             (ext w2)) = None)"
      by simp
    from no_token_archive_ok [OF tok a'] create_post [OF c b]
    show "fst (create lib self user w) = Inr acc" by simp
  qed
  obtain r w1 where c: "check_invite self ?u w = (r, w1)" by fastforce
  note f1 = check_invite_frame [OF c] check_invite_no_email_call [OF c]
  have main: "?P (fst (create lib self user w)) (snd (create lib self user w))"
  proof (cases r)
    case (Some x)
    with c have "create lib self user w = (Inl x, w1)" by (simp add: create_def Let_def)
    with f1 show ?thesis by simp
  next
    case None
    obtain r2 w2 where b: "base_create lib ?u w1 = (r2, w2)" by fastforce
    show ?thesis
    proof (cases r2)
      case (Inl x)
      with b base_create_Inl [of lib ?u w1 x w2] have "w2 = w1" by simp
      with c None b Inl have "create lib self user w = (Inl x, w1)"
        by (simp add: create_def Let_def)
      with f1 show ?thesis by simp
    next
      case (Inr acc)
      with b have b': "base_create lib ?u w1 = (Inr acc, w2)" by simp
      from c None have c': "check_invite self ?u w = (None, w1)" by simp
      obtain res w' where o: "on_after_register_custom self acc ?u w2 = (res, w')" by fastforce
      from base_create_Inr [OF b'] have acc: "is_active acc" "\<not> is_verified acc"
        and w2: "tasks w2 = tasks w1" "calls w2 = calls w1" by simp_all
      from create_post [OF c' b'] o have cr: "create lib self user w = (res, w')" by simp
      show ?thesis
      proof (cases res)
        case (Inl x)
        with no_token_post [OF tok o] w2 f1 cr show ?thesis by simp
      next
        case (Inr a)
        with no_token_post [OF tok o] have a: "a = acc"
          and t: "tasks w' = tasks w2 @ [Request_verify acc]"
          and s: "\<forall>a t. Send_user_validation a t \<in> set (calls w') \<longrightarrow>
                   Send_user_validation a t \<in> set (calls w2)"
          by simp_all
        from t w2 f1 have t': "tasks w' = tasks w @ [Request_verify acc]" by simp
        have run: "tasks w = [] \<longrightarrow>
               run_next_task lib self w' =
                 w'\<lparr>tasks := [],
                    ext := snd (send_user_validation (email self) (u_email acc) (?tok acc) (ext w')),
                    calls := calls w' @ [Send_user_validation (u_email acc) (?tok acc)]\<rparr>"
        proof
          assume "tasks w = []"
          with t' have "tasks w' = [Request_verify acc]" by simp
          from run_next_task_single [OF this acc] show "run_next_task lib self w' =
                 w'\<lparr>tasks := [],
                    ext := snd (send_user_validation (email self) (u_email acc) (?tok acc) (ext w')),
                    calls := calls w' @ [Send_user_validation (u_email acc) (?tok acc)]\<rparr>" .
        qed
        from s w2 f1 have s': "\<forall>a t. Send_user_validation a t \<in> set (calls w') \<longrightarrow>
                   Send_user_validation a t \<in> set (calls w)" by simp
        from Inr a t' run s' cr show ?thesis by simp
      qed
    qed
  qed
  have ind: "create lib (self\<lparr>email := em\<rparr>) user w = create lib self user w"
    by (rule email_irrelevant_create)
  from ind reach main show ?thesis by blast
qed

theorem verification_is_a_pending_task_witness:
  "\<not> truthy (inviteToken (request0 None None True)) \<and>
   check_invite ((manager0 True ops0)\<lparr>email := email_down\<rparr>)
     (default_name (request0 None None True)) world0 = (None, world0) \<and>
   base_create lib0 (default_name (request0 None None True)) world0 =
     (Inr (account0 False), world0\<lparr>users := [account0 False]\<rparr>) \<and>
   archive_ops ((manager0 True ops0)\<lparr>email := email_down\<rparr>) = Some ops0 \<and>
   fst (create_new_archive_for_user ops0 ''a@example.com's Archive'' ''default''
          (account0 False) [''tok'']) = None \<and>
   create lib0 (manager0 True ops0) (request0 None None True) world0 =
     create lib0 ((manager0 True ops0)\<lparr>email := email_down\<rparr>) (request0 None None True) world0 \<and>
   fst (create lib0 ((manager0 True ops0)\<lparr>email := email_down\<rparr>) (request0 None None True)
          world0) = Inr (account0 False) \<and>
   tasks (snd (create lib0 ((manager0 True ops0)\<lparr>email := email_down\<rparr>)
                 (request0 None None True) world0)) = [Request_verify (account0 False)] \<and>
   fst (send_user_validation email_down ''a@example.com'' ''jwt:5f0c'' [''tok'']) =
     Some (Raised ''SMTPException'') \<and>
   run_next_task lib0 ((manager0 True ops0)\<lparr>email := email_down\<rparr>)
     (snd (create lib0 ((manager0 True ops0)\<lparr>email := email_down\<rparr>)
             (request0 None None True) world0)) =
     world0\<lparr>users := [account0 False],
            calls := [Create_new_archive_for_user ''a@example.com's Archive'' ''default''
                        (account0 False),
                      Send_user_validation ''a@example.com'' ''jwt:5f0c''],
            stdout := [Line ''User u1 has registered.'', Line ''Creating new archive for u1''],
            tasks := []\<rparr>"
proof -
  let ?self = "(manager0 True ops0)\<lparr>email := email_down\<rparr>"
  let ?user = "request0 None None True"
  let ?w2 = "world0\<lparr>users := [account0 False]\<rparr>"
  let ?c = "create lib0 ?self ?user world0"
  have t: "\<not> truthy (inviteToken ?user)" by (simp add: request0_def truthy_def)
  have c: "check_invite ?self (default_name ?user) world0 = (None, world0)"
    by (simp add: check_invite_def default_name_def truthy_def deployment_defs)
  have b: "base_create lib0 (default_name ?user) world0 = (Inr (account0 False), ?w2)"
    by (simp add: base_create_def get_by_email_def default_name_def py_or_def Let_def
        deployment_defs)
  have o: "archive_ops ?self = Some ops0" by (simp add: manager0_def set_archive_ops_def)
  have nm: "archive_name (account0 False) ?user = ''a@example.com's Archive''"
    by (simp add: archive_name_def py_or_def request0_def account0_def)
  have a: "fst (create_new_archive_for_user ops0 ''a@example.com's Archive'' ''default''
          (account0 False) [''tok'']) = None"
    by (simp add: ops0_def)
  have a': "newArchive ?user \<longrightarrow>
      (\<exists>ops. archive_ops ?self = Some ops \<and>
             fst (create_new_archive_for_user ops (archive_name (account0 False) ?user)
                    ''default'' (account0 False) (ext ?w2)) = None)"
    using o a nm by (simp add: world0_def)
  have d: "fst (send_user_validation email_down ''a@example.com'' ''jwt:5f0c'' [''tok'']) =
     Some (Raised ''SMTPException'')"
    by (simp add: email_down_def)
  have w: "snd ?c =
     world0\<lparr>users := [account0 False],
            calls := [Create_new_archive_for_user ''a@example.com's Archive'' ''default''
                        (account0 False)],
            stdout := [Line ''User u1 has registered.'', Line ''Creating new archive for u1''],
            tasks := [Request_verify (account0 False)]\<rparr>"
    by (simp add: registration_defs deployment_defs)
  note th = verification_is_a_pending_task
    [OF t, where lib = lib0 and self = ?self and em = email0 and w = world0]
  have m: "?self\<lparr>email := email0\<rparr> = manager0 True ops0"
    by (simp add: manager0_def set_archive_ops_def init_user_manager_def)
  from th have ind: "create lib0 (?self\<lparr>email := email0\<rparr>) ?user world0 = ?c" by blast
  then have ind': "create lib0 (manager0 True ops0) ?user world0 = ?c" by (simp only: m)
  from th c b a' have r: "fst ?c = Inr (account0 False)" by blast
  with th have tk: "tasks (snd ?c) = tasks world0 @ [Request_verify (account0 False)]" by blast
  have tw: "tasks world0 = []" by (simp add: world0_def)
  let ?R = "(snd ?c)\<lparr>tasks := [],
         ext := snd (send_user_validation (email ?self) (u_email (account0 False))
             (generate_jwt lib0 [(''user_id'', u_id (account0 False)),
                                 (''email'', u_email (account0 False)),
                                 (''aud'', ''fastapi-users:verify'')]
                (verification_token_secret ?self) 3600) (ext (snd ?c))),
         calls := calls (snd ?c) @
             [Send_user_validation (u_email (account0 False))
               (generate_jwt lib0 [(''user_id'', u_id (account0 False)),
                                   (''email'', u_email (account0 False)),
                                   (''aud'', ''fastapi-users:verify'')]
                  (verification_token_secret ?self) 3600)]\<rparr>"
  from th r tw have eq: "run_next_task lib0 ?self (snd ?c) = ?R" by blast
  have rhs: "?R =
     world0\<lparr>users := [account0 False],
            calls := [Create_new_archive_for_user ''a@example.com's Archive''
                        ''default'' (account0 False),
                      Send_user_validation ''a@example.com'' ''jwt:5f0c''],
            stdout := [Line ''User u1 has registered.'', Line ''Creating new archive for u1''],
            tasks := []\<rparr>"
    unfolding w by (simp add: deployment_defs PASSWORD_SECRET_def)
  from trans [OF eq rhs] have run: "run_next_task lib0 ?self (snd ?c) =
     world0\<lparr>users := [account0 False],
            calls := [Create_new_archive_for_user ''a@example.com's Archive''
                        ''default'' (account0 False),
                      Send_user_validation ''a@example.com'' ''jwt:5f0c''],
            stdout := [Line ''User u1 has registered.'', Line ''Creating new archive for u1''],
            tasks := []\<rparr>" .
  from tk tw have tk': "tasks (snd ?c) = [Request_verify (account0 False)]" by simp
  from t c b o a ind' r tk' d run show ?thesis by simp
qed

text \<open>
  The claim as stated, for every attempt without an invite token, fails: when a new archive
  is requested and the archive call raises, the account has been stored but no verification
  task is created, and \<open>create\<close> raises.
\<close>

theorem verification_task_counterexample:
  "\<not> truthy (inviteToken (request0 None None True)) \<and>
   fst (create lib0 (manager0 True ops_timeout) (request0 None None True) world0) =
     Inl (Raised ''TimeoutError'') \<and>
   users (snd (create lib0 (manager0 True ops_timeout) (request0 None None True) world0)) =
     [account0 False] \<and>
   tasks (snd (create lib0 (manager0 True ops_timeout) (request0 None None True) world0)) = []"
  by (simp add: registration_defs deployment_defs)

section \<open>Secrets and lifetimes\<close>

subsection \<open>Reading a decimal numeral\<close>









lemma strip_id:
  assumes "s \<noteq> []" and "\<not> is_space (hd s)" and "\<not> is_space (last s)"
  shows "strip s = s"
proof -
  from assms(1,2) have a: "dropWhile is_space s = s" by (cases s) simp_all
  from assms(1,3) have "dropWhile is_space (rev s) = rev s"
    by (cases "rev s") (simp_all add: last_rev [symmetric] hd_rev)
  with a show ?thesis by (simp add: strip_def)
qed




lemma py_int_examples:
  "py_int '' 15 '' = Some 15" "py_int ''-1_5'' = Some (- 15)" "py_int ''1__5'' = None"
  "py_int ''15_'' = None" "py_int ''+'' = None" "py_int '''' = None"
  by (simp_all add: py_int_def strip_def is_space_def int_digits_def max_str_digits_def
      parse_nat_def digit_val_def)

lemma py_int_too_long: "py_int (replicate 4301 CHR ''0'') = None"
proof -
  have "strip (replicate 4301 CHR ''0'') = replicate 4301 CHR ''0''"
    by (rule strip_id) (simp_all add: is_space_def)
  moreover have "replicate 4301 CHR ''0'' = CHR ''0'' # replicate 4300 CHR ''0''"
    by (simp add: replicate_Suc [symmetric] del: replicate_Suc replicate.simps)
  moreover have "int_digits (replicate 4301 CHR ''0'') = None"
    by (simp add: int_digits_def max_str_digits_def)
  ultimately show ?thesis by (simp add: py_int_def)
qed

subsection \<open>The lifetime of a bearer token\<close>

lemma refresh_jwt_active:
  "is_active u \<Longrightarrow>
     refresh_jwt lib jwt (Some u) =
       Inr [(''access_token'',
             generate_jwt lib [(''user_id'', u_id u), (''aud'', ''fastapi-users:auth'')]
               (secret jwt) (lifetime_seconds jwt)),
            (''token_type'', ''bearer'')]"
  by (simp add: refresh_jwt_def current_active_user_def get_login_response_def)



subsection \<open>The signing secret\<close>

lemma forgot_password_active:
  "is_active u \<Longrightarrow>
     forgot_password lib self u w =
       (let token = generate_jwt lib [(''user_id'', u_id u), (''aud'', ''fastapi-users:reset'')]
                      (reset_password_token_secret self) 3600;
            line = Line (''User '' @ u_id u @ '' has forgot their password. Reset token: ''
                         @ token)
        in (fst (send_user_forgot_password (email self) (u_email u) token (ext w)),
            w\<lparr>stdout := stdout w @ [line],
              ext := snd (send_user_forgot_password (email self) (u_email u) token (ext w)),
              calls := calls w @ [Send_user_forgot_password (u_email u) token]\<rparr>))"
  by (simp add: forgot_password_def on_after_forgot_password_def Let_def split: prod.splits)

lemma manager_fields:
  "reset_password_token_secret (set_archive_ops (init_user_manager environ uuid_hex em invs) ops) =
     PASSWORD_SECRET environ uuid_hex"
  "verification_token_secret (set_archive_ops (init_user_manager environ uuid_hex em invs) ops) =
     PASSWORD_SECRET environ uuid_hex"
  "email (set_archive_ops (init_user_manager environ uuid_hex em invs) ops) = em"
  "invites (set_archive_ops (init_user_manager environ uuid_hex em invs) ops) = invs"
  "archive_ops (set_archive_ops (init_user_manager environ uuid_hex em invs) ops) = Some ops"
  "registration_enabled (set_archive_ops (init_user_manager environ uuid_hex em invs) ops) =
     (environ ''REGISTRATION_ENABLED'' = Some ''1'')"
  by (simp_all add: set_archive_ops_def init_user_manager_def)

text \<open>
  C7: \<open>PASSWORD_SECRET\<close> is the one secret of the module. Whenever the lifetime is read,
  the JWT authentication is built with it as its secret, and the bearer token issued for
  an active account is signed with it. It is the reset-password and the verification secret
  of the user manager, so \<open>forgot_password\<close> and \<open>request_verify\<close> sign their tokens with
  it and hand them to the email sender. When \<open>PASSWORD_SECRET\<close> is not in the environment
  it is the hexadecimal UUID drawn once at import, otherwise the configured value. The
  witness has a configured and an unconfigured environment.
\<close>

theorem one_secret_signs_all_tokens:
  "(\<forall>l. JWT_TOKEN_LIFETIME environ = Inr l \<longrightarrow>
      jwt_authentication environ uuid_hex =
        Inr \<lparr>secret = PASSWORD_SECRET environ uuid_hex, lifetime_seconds = l,
             tokenUrl = ''auth/jwt/login''\<rparr> \<and>
      (is_active u \<longrightarrow>
         refresh_jwt lib
           \<lparr>secret = PASSWORD_SECRET environ uuid_hex, lifetime_seconds = l,
            tokenUrl = ''auth/jwt/login''\<rparr> (Some u) =
           Inr [(''access_token'',
                 generate_jwt lib [(''user_id'', u_id u), (''aud'', ''fastapi-users:auth'')]
                   (PASSWORD_SECRET environ uuid_hex) l),
                (''token_type'', ''bearer'')])) \<and>
   reset_password_token_secret (set_archive_ops (init_user_manager environ uuid_hex em invs) ops) =
     PASSWORD_SECRET environ uuid_hex \<and>
   verification_token_secret (set_archive_ops (init_user_manager environ uuid_hex em invs) ops) =
     PASSWORD_SECRET environ uuid_hex \<and>
   (is_active u \<longrightarrow>
      forgot_password lib (set_archive_ops (init_user_manager environ uuid_hex em invs) ops) u w =
        (fst (send_user_forgot_password em (u_email u)
               (generate_jwt lib [(''user_id'', u_id u), (''aud'', ''fastapi-users:reset'')]
                  (PASSWORD_SECRET environ uuid_hex) 3600) (ext w)),
         w\<lparr>stdout := stdout w @
              [Line (''User '' @ u_id u @ '' has forgot their password. Reset token: '' @
                 generate_jwt lib [(''user_id'', u_id u), (''aud'', ''fastapi-users:reset'')]
                   (PASSWORD_SECRET environ uuid_hex) 3600)],
           ext := snd (send_user_forgot_password em (u_email u)
               (generate_jwt lib [(''user_id'', u_id u), (''aud'', ''fastapi-users:reset'')]
                  (PASSWORD_SECRET environ uuid_hex) 3600) (ext w)),
           calls := calls w @ [Send_user_forgot_password (u_email u)
               (generate_jwt lib [(''user_id'', u_id u), (''aud'', ''fastapi-users:reset'')]
                  (PASSWORD_SECRET environ uuid_hex) 3600)]\<rparr>)) \<and>
   (is_active u \<and> \<not> is_verified u \<longrightarrow>
      request_verify lib (set_archive_ops (init_user_manager environ uuid_hex em invs) ops) u w =
        (fst (send_user_validation em (u_email u)
               (generate_jwt lib [(''user_id'', u_id u), (''email'', u_email u),
                                  (''aud'', ''fastapi-users:verify'')]
                  (PASSWORD_SECRET environ uuid_hex) 3600) (ext w)),
         w\<lparr>ext := snd (send_user_validation em (u_email u)
               (generate_jwt lib [(''user_id'', u_id u), (''email'', u_email u),
                                  (''aud'', ''fastapi-users:verify'')]
                  (PASSWORD_SECRET environ uuid_hex) 3600) (ext w)),
           calls := calls w @ [Send_user_validation (u_email u)
               (generate_jwt lib [(''user_id'', u_id u), (''email'', u_email u),
                                  (''aud'', ''fastapi-users:verify'')]
                  (PASSWORD_SECRET environ uuid_hex) 3600)]\<rparr>)) \<and>
   (environ ''PASSWORD_SECRET'' = None \<longrightarrow> PASSWORD_SECRET environ uuid_hex = uuid_hex) \<and>
   (\<forall>s. environ ''PASSWORD_SECRET'' = Some s \<longrightarrow> PASSWORD_SECRET environ uuid_hex = s)"
proof -
  let ?m = "set_archive_ops (init_user_manager environ uuid_hex em invs) ops"
  let ?S = "PASSWORD_SECRET environ uuid_hex"
  have bearer: "\<forall>l. JWT_TOKEN_LIFETIME environ = Inr l \<longrightarrow>
      jwt_authentication environ uuid_hex =
        Inr \<lparr>secret = ?S, lifetime_seconds = l, tokenUrl = ''auth/jwt/login''\<rparr> \<and>
      (is_active u \<longrightarrow>
         refresh_jwt lib \<lparr>secret = ?S, lifetime_seconds = l, tokenUrl = ''auth/jwt/login''\<rparr>
           (Some u) =
           Inr [(''access_token'',
                 generate_jwt lib [(''user_id'', u_id u), (''aud'', ''fastapi-users:auth'')] ?S l),
                (''token_type'', ''bearer'')])"
    by (simp add: jwt_authentication_def refresh_jwt_active)
  have sec: "reset_password_token_secret ?m = ?S" "verification_token_secret ?m = ?S"
    by (simp_all add: manager_fields)
  have reset: "is_active u \<longrightarrow>
      forgot_password lib ?m u w =
        (fst (send_user_forgot_password em (u_email u)
               (generate_jwt lib [(''user_id'', u_id u), (''aud'', ''fastapi-users:reset'')]
                  ?S 3600) (ext w)),
         w\<lparr>stdout := stdout w @
              [Line (''User '' @ u_id u @ '' has forgot their password. Reset token: '' @
                 generate_jwt lib [(''user_id'', u_id u), (''aud'', ''fastapi-users:reset'')]
                   ?S 3600)],
           ext := snd (send_user_forgot_password em (u_email u)
               (generate_jwt lib [(''user_id'', u_id u), (''aud'', ''fastapi-users:reset'')]
                  ?S 3600) (ext w)),
           calls := calls w @ [Send_user_forgot_password (u_email u)
               (generate_jwt lib [(''user_id'', u_id u), (''aud'', ''fastapi-users:reset'')]
                  ?S 3600)]\<rparr>)"
    by (simp add: forgot_password_active manager_fields Let_def)
  have verify: "is_active u \<and> \<not> is_verified u \<longrightarrow>
      request_verify lib ?m u w =
        (fst (send_user_validation em (u_email u)
               (generate_jwt lib [(''user_id'', u_id u), (''email'', u_email u),
                                  (''aud'', ''fastapi-users:verify'')] ?S 3600) (ext w)),
         w\<lparr>ext := snd (send_user_validation em (u_email u)
               (generate_jwt lib [(''user_id'', u_id u), (''email'', u_email u),
                                  (''aud'', ''fastapi-users:verify'')] ?S 3600) (ext w)),
           calls := calls w @ [Send_user_validation (u_email u)
               (generate_jwt lib [(''user_id'', u_id u), (''email'', u_email u),
                                  (''aud'', ''fastapi-users:verify'')] ?S 3600)]\<rparr>)"
    by (simp add: request_verify_unverified manager_fields Let_def)
  have env: "environ ''PASSWORD_SECRET'' = None \<longrightarrow> ?S = uuid_hex"
    "\<forall>s. environ ''PASSWORD_SECRET'' = Some s \<longrightarrow> ?S = s"
    by (simp_all add: PASSWORD_SECRET_def)
  from bearer sec reset verify env show ?thesis by blast
qed

theorem one_secret_signs_all_tokens_witness:
  "JWT_TOKEN_LIFETIME (\<lambda>k. if k = ''PASSWORD_SECRET'' then Some ''s3cret'' else None) = Inr 3600 \<and>
   jwt_authentication (\<lambda>k. if k = ''PASSWORD_SECRET'' then Some ''s3cret'' else None) ''5f0c'' =
     Inr \<lparr>secret = ''s3cret'', lifetime_seconds = 3600, tokenUrl = ''auth/jwt/login''\<rparr> \<and>
   jwt_authentication (\<lambda>k. None) ''5f0c'' =
     Inr \<lparr>secret = ''5f0c'', lifetime_seconds = 3600, tokenUrl = ''auth/jwt/login''\<rparr> \<and>
   is_active (account0 False) \<and> \<not> is_verified (account0 False) \<and>
   refresh_jwt lib0 \<lparr>secret = ''s3cret'', lifetime_seconds = 3600, tokenUrl = ''auth/jwt/login''\<rparr>
     (Some (account0 False)) =
     Inr [(''access_token'', ''jwt:s3cret''), (''token_type'', ''bearer'')] \<and>
   forgot_password lib0
     (set_archive_ops
        (init_user_manager (\<lambda>k. if k = ''PASSWORD_SECRET'' then Some ''s3cret'' else None)
           ''5f0c'' email0 invites0) ops0)
     (account0 False) world0 =
     (None,
      world0\<lparr>stdout := [Line ''User u1 has forgot their password. Reset token: jwt:s3cret''],
             calls := [Send_user_forgot_password ''a@example.com'' ''jwt:s3cret'']\<rparr>) \<and>
   request_verify lib0
     (set_archive_ops
        (init_user_manager (\<lambda>k. if k = ''PASSWORD_SECRET'' then Some ''s3cret'' else None)
           ''5f0c'' email0 invites0) ops0)
     (account0 False) world0 =
     (None, world0\<lparr>calls := [Send_user_validation ''a@example.com'' ''jwt:s3cret'']\<rparr>) \<and>
   request_verify lib0
     (set_archive_ops (init_user_manager (\<lambda>k. None) ''5f0c'' email0 invites0) ops0)
     (account0 False) world0 =
     (None, world0\<lparr>calls := [Send_user_validation ''a@example.com'' ''jwt:5f0c'']\<rparr>)"
proof -
  let ?e = "\<lambda>k. if k = ''PASSWORD_SECRET'' then Some ''s3cret'' else None"
  let ?n = "\<lambda>k::string. None :: string option"
  have l: "JWT_TOKEN_LIFETIME ?e = Inr 3600" "JWT_TOKEN_LIFETIME ?n = Inr 3600"
    by (simp_all add: JWT_TOKEN_LIFETIME_def)
  have u: "is_active (account0 False)" "\<not> is_verified (account0 False)"
    by (simp_all add: account0_def)
  have pe: "?e ''PASSWORD_SECRET'' = Some ''s3cret''" and pn: "?n ''PASSWORD_SECRET'' = None"
    by simp_all
  note te = one_secret_signs_all_tokens
    [of ?e "''5f0c''" "account0 False" lib0 email0 invites0 ops0 world0]
  note tn = one_secret_signs_all_tokens
    [of ?n "''5f0c''" "account0 False" lib0 email0 invites0 ops0 world0]
  from te pe have se: "PASSWORD_SECRET ?e ''5f0c'' = ''s3cret''" by blast
  from tn pn have sn: "PASSWORD_SECRET ?n ''5f0c'' = ''5f0c''" by blast
  from te l(1) have "jwt_authentication ?e ''5f0c'' =
      Inr \<lparr>secret = PASSWORD_SECRET ?e ''5f0c'', lifetime_seconds = 3600,
           tokenUrl = ''auth/jwt/login''\<rparr>"
    by blast
  then have a: "jwt_authentication ?e ''5f0c'' =
      Inr \<lparr>secret = ''s3cret'', lifetime_seconds = 3600, tokenUrl = ''auth/jwt/login''\<rparr>"
    by (simp only: se)
  from tn l(2) have "jwt_authentication ?n ''5f0c'' =
      Inr \<lparr>secret = PASSWORD_SECRET ?n ''5f0c'', lifetime_seconds = 3600,
           tokenUrl = ''auth/jwt/login''\<rparr>"
    by blast
  then have b: "jwt_authentication ?n ''5f0c'' =
      Inr \<lparr>secret = ''5f0c'', lifetime_seconds = 3600, tokenUrl = ''auth/jwt/login''\<rparr>"
    by (simp only: sn)
  from te l(1) u(1) have "refresh_jwt lib0
      \<lparr>secret = PASSWORD_SECRET ?e ''5f0c'', lifetime_seconds = 3600,
       tokenUrl = ''auth/jwt/login''\<rparr> (Some (account0 False)) =
      Inr [(''access_token'',
            generate_jwt lib0 [(''user_id'', u_id (account0 False)), (''aud'', ''fastapi-users:auth'')]
              (PASSWORD_SECRET ?e ''5f0c'') 3600),
           (''token_type'', ''bearer'')]"
    by blast
  then have c: "refresh_jwt lib0
      \<lparr>secret = ''s3cret'', lifetime_seconds = 3600, tokenUrl = ''auth/jwt/login''\<rparr>
      (Some (account0 False)) =
      Inr [(''access_token'', ''jwt:s3cret''), (''token_type'', ''bearer'')]"
    by (simp add: se lib0_def)
  from te u(1) have "forgot_password lib0
      (set_archive_ops (init_user_manager ?e ''5f0c'' email0 invites0) ops0) (account0 False) world0 =
        (fst (send_user_forgot_password email0 (u_email (account0 False))
               (generate_jwt lib0 [(''user_id'', u_id (account0 False)), (''aud'', ''fastapi-users:reset'')]
                  (PASSWORD_SECRET ?e ''5f0c'') 3600) (ext world0)),
         world0\<lparr>stdout := stdout world0 @
              [Line (''User '' @ u_id (account0 False) @ '' has forgot their password. Reset token: '' @
                 generate_jwt lib0 [(''user_id'', u_id (account0 False)), (''aud'', ''fastapi-users:reset'')]
                   (PASSWORD_SECRET ?e ''5f0c'') 3600)],
           ext := snd (send_user_forgot_password email0 (u_email (account0 False))
               (generate_jwt lib0 [(''user_id'', u_id (account0 False)), (''aud'', ''fastapi-users:reset'')]
                  (PASSWORD_SECRET ?e ''5f0c'') 3600) (ext world0)),
           calls := calls world0 @ [Send_user_forgot_password (u_email (account0 False))
               (generate_jwt lib0 [(''user_id'', u_id (account0 False)), (''aud'', ''fastapi-users:reset'')]
                  (PASSWORD_SECRET ?e ''5f0c'') 3600)]\<rparr>)"
    by blast
  then have d: "forgot_password lib0
      (set_archive_ops (init_user_manager ?e ''5f0c'' email0 invites0) ops0) (account0 False) world0 =
     (None,
      world0\<lparr>stdout := [Line ''User u1 has forgot their password. Reset token: jwt:s3cret''],
             calls := [Send_user_forgot_password ''a@example.com'' ''jwt:s3cret'']\<rparr>)"
    by (simp add: se lib0_def email0_def account0_def world0_def)
  from te u have "request_verify lib0
      (set_archive_ops (init_user_manager ?e ''5f0c'' email0 invites0) ops0) (account0 False) world0 =
        (fst (send_user_validation email0 (u_email (account0 False))
               (generate_jwt lib0 [(''user_id'', u_id (account0 False)),
                                   (''email'', u_email (account0 False)),
                                   (''aud'', ''fastapi-users:verify'')]
                  (PASSWORD_SECRET ?e ''5f0c'') 3600) (ext world0)),
         world0\<lparr>ext := snd (send_user_validation email0 (u_email (account0 False))
               (generate_jwt lib0 [(''user_id'', u_id (account0 False)),
                                   (''email'', u_email (account0 False)),
                                   (''aud'', ''fastapi-users:verify'')]
                  (PASSWORD_SECRET ?e ''5f0c'') 3600) (ext world0)),
           calls := calls world0 @ [Send_user_validation (u_email (account0 False))
               (generate_jwt lib0 [(''user_id'', u_id (account0 False)),
                                   (''email'', u_email (account0 False)),
                                   (''aud'', ''fastapi-users:verify'')]
                  (PASSWORD_SECRET ?e ''5f0c'') 3600)]\<rparr>)"
    by blast
  then have e: "request_verify lib0
      (set_archive_ops (init_user_manager ?e ''5f0c'' email0 invites0) ops0) (account0 False) world0 =
     (None, world0\<lparr>calls := [Send_user_validation ''a@example.com'' ''jwt:s3cret'']\<rparr>)"
    by (simp add: se lib0_def email0_def account0_def world0_def)
  from tn u have "request_verify lib0
      (set_archive_ops (init_user_manager ?n ''5f0c'' email0 invites0) ops0) (account0 False) world0 =
        (fst (send_user_validation email0 (u_email (account0 False))
               (generate_jwt lib0 [(''user_id'', u_id (account0 False)),
                                   (''email'', u_email (account0 False)),
                                   (''aud'', ''fastapi-users:verify'')]
                  (PASSWORD_SECRET ?n ''5f0c'') 3600) (ext world0)),
         world0\<lparr>ext := snd (send_user_validation email0 (u_email (account0 False))
               (generate_jwt lib0 [(''user_id'', u_id (account0 False)),
                                   (''email'', u_email (account0 False)),
                                   (''aud'', ''fastapi-users:verify'')]
                  (PASSWORD_SECRET ?n ''5f0c'') 3600) (ext world0)),
           calls := calls world0 @ [Send_user_validation (u_email (account0 False))
               (generate_jwt lib0 [(''user_id'', u_id (account0 False)),
                                   (''email'', u_email (account0 False)),
                                   (''aud'', ''fastapi-users:verify'')]
                  (PASSWORD_SECRET ?n ''5f0c'') 3600)]\<rparr>)"
    by blast
  then have f: "request_verify lib0
      (set_archive_ops (init_user_manager ?n ''5f0c'' email0 invites0) ops0) (account0 False) world0 =
     (None, world0\<lparr>calls := [Send_user_validation ''a@example.com'' ''jwt:5f0c'']\<rparr>)"
    by (simp add: sn lib0_def email0_def account0_def world0_def)
  from l(1) a b u c d e f show ?thesis by blast
qed

section \<open>Issuing invites\<close>

text \<open>
  C10: for every active authenticated account, whether a superuser or not, the
  \<open>/invite\<close> route calls \<open>invite_user\<close> of the invite ledger with \<open>archive = None\<close> and
  \<open>allow_existing = False\<close>, and when that call returns the body is
  \<open>{"invited": "new_user"}\<close>; an exception of the ledger is raised to the caller.
\<close>

theorem invite_user_any_active_account:
  assumes "is_active user"
  shows "invite_user user_manager invite (Some user) w =
     ((case fst (invites_invite_user (invites user_manager) invite user (users w) None False
                   (ext w)) of
         None \<Rightarrow> Inr [(''invited'', ''new_user'')]
       | Some x \<Rightarrow> Inl x),
      w\<lparr>ext := snd (invites_invite_user (invites user_manager) invite user (users w) None False
                      (ext w)),
        calls := calls w @ [Invite_user invite user None False]\<rparr>)"
  using assms
  by (simp add: invite_user_def current_active_user_def Let_def split: prod.splits option.splits)

theorem invite_user_any_active_account_witness:
  "is_active (account0 False) \<and> \<not> is_superuser (account0 False) \<and>
   invite_user (manager0 False ops0) ''b@example.com'' (Some (account0 False)) world0 =
     (Inr [(''invited'', ''new_user'')],
      world0\<lparr>calls := [Invite_user ''b@example.com'' (account0 False) None False]\<rparr>)"
proof -
  have a: "is_active (account0 False)" "\<not> is_superuser (account0 False)"
    by (simp_all add: account0_def)
  from invite_user_any_active_account [OF a(1), of "manager0 False ops0" "''b@example.com''" world0] a
  show ?thesis by (simp add: deployment_defs)
qed

end
